theory Spec2Isabelle
  imports Main "HOL-Library.Word" "HOL-Library.AList"
begin

unbundle bit_operations_syntax

section \<open>Values, exceptions and the platform\<close>

text \<open>
  The two services of \<^verbatim>\<open>libs/core/src/lib/services\<close> are translated function by
  function. Everything they call but do not define (SubtleCrypto, the random source,
  \<^verbatim>\<open>btoa\<close>/\<^verbatim>\<open>atob\<close>, the text encoder, \<^verbatim>\<open>JSON\<close>) is a field of the record
  \<open>platform\<close>; the browser storages, the clock and the service's private fields are
  the fields of the record \<open>world\<close>, passed through every operation. A thrown
  exception is the \<open>Inl\<close> of a sum, next to the world as it was when it was thrown.

  JavaScript strings are modelled as lists of 8-bit characters and JavaScript numbers
  as integers.
\<close>

type_synonym byte = "8 word"
type_synonym bytes = "byte list"

datatype json =
    JNull
  | JBool bool
  | JNum int
  | JStr string
  | JArr "json list"
  | JObj "(string \<times> json) list"

datatype error =
    Error string
  | DOMException string
  | SyntaxError
  | TypeError
  | RangeError

datatype crypto_key =
  CryptoKey (key_algorithm: string) (key_extractable: bool) (key_usages: "string list")
    (key_material: bytes)

record platform =
  subtle_present :: bool
  subtle_generateKey :: "nat \<Rightarrow> string \<Rightarrow> int \<Rightarrow> bool \<Rightarrow> string list \<Rightarrow> error + crypto_key"
  subtle_importKey :: "string \<Rightarrow> bytes \<Rightarrow> string \<Rightarrow> bool \<Rightarrow> string list \<Rightarrow> error + crypto_key"
  subtle_deriveKey ::
    "bytes \<Rightarrow> int \<Rightarrow> string \<Rightarrow> crypto_key \<Rightarrow> string \<Rightarrow> int \<Rightarrow> bool \<Rightarrow> string list
      \<Rightarrow> error + crypto_key"
  subtle_encrypt :: "string \<Rightarrow> bytes \<Rightarrow> crypto_key \<Rightarrow> bytes \<Rightarrow> error + bytes"
  subtle_decrypt :: "string \<Rightarrow> bytes \<Rightarrow> crypto_key \<Rightarrow> bytes \<Rightarrow> error + bytes"
  getRandomValues :: "nat \<Rightarrow> nat \<Rightarrow> bytes"
  btoa :: "string \<Rightarrow> string"
  atob :: "string \<Rightarrow> error + string"
  TextEncoder_encode :: "string \<Rightarrow> bytes"
  TextDecoder_decode :: "bytes \<Rightarrow> string"
  JSON_stringify :: "json \<Rightarrow> string"
  JSON_parse :: "string \<Rightarrow> error + json"
  StringToNumber :: "string \<Rightarrow> int option"

text \<open>
  \<open>subtle_generateKey P n\<close> is the key the \<open>n\<close>-th call of \<^verbatim>\<open>subtle.generateKey\<close>
  returns and \<open>getRandomValues P n len\<close> the \<open>len\<close> bytes the \<open>n\<close>-th call of
  \<^verbatim>\<open>crypto.getRandomValues\<close> writes: the world counts the calls.
  \<open>subtle_deriveKey P salt iterations hash baseKey name length extractable usages\<close>
  is PBKDF2; \<open>subtle_encrypt P name iv key data\<close> and \<open>subtle_decrypt\<close> are AES-GCM.
\<close>

type_synonym backend = "(string \<times> string) list"

record world =
  encryptionKey :: "crypto_key option"
  keySalt :: "bytes option"
  initialized :: bool
  memoryStorage :: backend
  localStorage :: "backend option"
  sessionStorage :: "backend option"
  now :: int
  random_calls :: nat
  generateKey_calls :: nat

text \<open>
  \<open>localStorage w = None\<close>: the browser storage cannot be used (every access
  throws). A backend lists its entries in enumeration order. \<open>now\<close> is what
  \<^verbatim>\<open>Date.now()\<close> returns; it is the caller of an operation who moves the clock.
\<close>

subsection \<open>The JavaScript operations the services rely on\<close>

text \<open>The decimal digits of a number that is not negative.\<close>

function digit_chars :: "int \<Rightarrow> string" where
  "digit_chars n =
     (if n < 10 then [char_of (48 + n)] else digit_chars (n div 10) @ [char_of (48 + n mod 10)])"
  by pat_completeness auto
termination
  by (relation "measure nat") auto

declare digit_chars.simps [simp del]

definition show_int :: "int \<Rightarrow> string" where
  "show_int i = (if i < 0 then CHR ''-'' # digit_chars (- i) else digit_chars i)"

fun join_comma :: "string list \<Rightarrow> string" where
  "join_comma [] = []"
| "join_comma [s] = s"
| "join_comma (s # t # ss) = s @ '','' @ join_comma (t # ss)"

text \<open>\<open>x.name\<close> on a parsed value that is not \<^verbatim>\<open>null\<close>; \<open>None\<close> is \<^verbatim>\<open>undefined\<close>.\<close>

fun prop_of :: "json \<Rightarrow> string \<Rightarrow> json option" where
  "prop_of (JObj fs) name = map_of fs name"
| "prop_of _ name = None"

fun truthy :: "json option \<Rightarrow> bool" where
  "truthy None = False"
| "truthy (Some JNull) = False"
| "truthy (Some (JBool b)) = b"
| "truthy (Some (JNum n)) = (n \<noteq> 0)"
| "truthy (Some (JStr s)) = (s \<noteq> [])"
| "truthy (Some (JArr xs)) = True"
| "truthy (Some (JObj fs)) = True"

fun ToString :: "json \<Rightarrow> string" where
  "ToString JNull = ''null''"
| "ToString (JBool b) = (if b then ''true'' else ''false'')"
| "ToString (JNum n) = show_int n"
| "ToString (JStr s) = s"
| "ToString (JArr xs) = join_comma (map (\<lambda>x. if x = JNull then [] else ToString x) xs)"
| "ToString (JObj fs) = ''[object Object]''"

definition ToString_opt :: "json option \<Rightarrow> string" where
  "ToString_opt x = (case x of None \<Rightarrow> ''undefined'' | Some j \<Rightarrow> ToString j)"

text \<open>\<open>ToNumber\<close>; \<open>None\<close> is \<^verbatim>\<open>NaN\<close>.\<close>

definition ToNumber :: "platform \<Rightarrow> json option \<Rightarrow> int option" where
  "ToNumber P x =
     (case x of
        None \<Rightarrow> None
      | Some JNull \<Rightarrow> Some 0
      | Some (JBool b) \<Rightarrow> Some (if b then 1 else 0)
      | Some (JNum n) \<Rightarrow> Some n
      | Some j \<Rightarrow> StringToNumber P (ToString j))"

text \<open>\<open>a > x\<close> for a number \<open>a\<close>.\<close>

definition number_gt :: "platform \<Rightarrow> int \<Rightarrow> json option \<Rightarrow> bool" where
  "number_gt P a x = (case ToNumber P x of None \<Rightarrow> False | Some n \<Rightarrow> a > n)"

definition ToUint8 :: "platform \<Rightarrow> json option \<Rightarrow> byte" where
  "ToUint8 P x = (case ToNumber P x of None \<Rightarrow> 0 | Some n \<Rightarrow> word_of_int n)"

text \<open>
  \<^verbatim>\<open>new Uint8Array(x)\<close> for a parsed value \<open>x\<close>: an array gives its elements as bytes,
  another object is read as array-like, and a primitive is a length.
\<close>

definition Uint8Array_of_length :: "int option \<Rightarrow> error + bytes" where
  "Uint8Array_of_length n =
     (case n of
        None \<Rightarrow> Inr []
      | Some i \<Rightarrow> if i < 0 then Inl RangeError else Inr (replicate (nat i) 0))"

definition Uint8Array_from :: "platform \<Rightarrow> json \<Rightarrow> error + bytes" where
  "Uint8Array_from P x =
     (case x of
        JArr xs \<Rightarrow> Inr (map (\<lambda>e. ToUint8 P (Some e)) xs)
      | JObj fs \<Rightarrow>
          (let len = (case ToNumber P (map_of fs ''length'') of
                        None \<Rightarrow> 0 | Some n \<Rightarrow> if n < 0 then 0 else nat n)
           in Inr (map (\<lambda>i. ToUint8 P (map_of fs (digit_chars (int i)))) [0..<len]))
      | _ \<Rightarrow> Uint8Array_of_length (ToNumber P (Some x)))"

definition startsWith :: "string \<Rightarrow> string \<Rightarrow> bool" where
  "startsWith s p = (take (length p) s = p)"

definition substring :: "string \<Rightarrow> nat \<Rightarrow> string" where
  "substring s n = drop n s"

section \<open>CryptoService\<close>

definition ALGORITHM :: string where "ALGORITHM = ''AES-GCM''"
definition KEY_LENGTH :: int where "KEY_LENGTH = 256"
definition IV_LENGTH :: nat where "IV_LENGTH = 12"
definition SALT_LENGTH :: nat where "SALT_LENGTH = 16"
definition PBKDF2_ITERATIONS :: int where "PBKDF2_ITERATIONS = 100000"

record encrypted_payload =
  ciphertext :: string
  iv :: string
  salt :: "string option"
  algorithm :: string

definition isAvailable :: "platform \<Rightarrow> bool" where
  "isAvailable P = subtle_present P"

definition unavailable :: error where
  "unavailable = Error ''Web Crypto API is not available. Secure storage requires a secure context (HTTPS) or a modern browser.''"

definition ensureAvailable :: "platform \<Rightarrow> error option" where
  "ensureAvailable P = (if \<not> subtle_present P then Some unavailable else None)"

definition arrayBufferToBase64 :: "platform \<Rightarrow> bytes \<Rightarrow> string" where
  "arrayBufferToBase64 P buffer = btoa P (map (\<lambda>b. char_of (unat b)) buffer)"

definition base64ToArrayBuffer :: "platform \<Rightarrow> string \<Rightarrow> error + bytes" where
  "base64ToArrayBuffer P base64 =
     (case atob P base64 of
        Inl e \<Rightarrow> Inl e
      | Inr binary \<Rightarrow> Inr (map (\<lambda>c. word_of_nat (of_char c)) binary))"

definition generateSalt :: "platform \<Rightarrow> nat \<Rightarrow> world \<Rightarrow> bytes \<times> world" where
  "generateSalt P len w =
     (getRandomValues P (random_calls w) len, w\<lparr>random_calls := Suc (random_calls w)\<rparr>)"

definition generateIV :: "platform \<Rightarrow> world \<Rightarrow> bytes \<times> world" where
  "generateIV P w =
     (getRandomValues P (random_calls w) IV_LENGTH, w\<lparr>random_calls := Suc (random_calls w)\<rparr>)"

definition generateKey :: "platform \<Rightarrow> world \<Rightarrow> (error + crypto_key) \<times> world" where
  "generateKey P w =
     (case ensureAvailable P of
        Some e \<Rightarrow> (Inl e, w)
      | None \<Rightarrow>
          (subtle_generateKey P (generateKey_calls w) ALGORITHM KEY_LENGTH True
             [''encrypt'', ''decrypt''],
           w\<lparr>generateKey_calls := Suc (generateKey_calls w)\<rparr>))"

definition deriveKey ::
  "platform \<Rightarrow> string \<Rightarrow> bytes option \<Rightarrow> int \<Rightarrow> world \<Rightarrow> (error + crypto_key \<times> bytes) \<times> world"
where
  "deriveKey P pw saltArg iterations w =
     (case ensureAvailable P of
        Some e \<Rightarrow> (Inl e, w)
      | None \<Rightarrow>
          (let (usedSalt, w1) =
                 (case saltArg of Some s \<Rightarrow> (s, w) | None \<Rightarrow> generateSalt P SALT_LENGTH w);
               passwordBuffer = TextEncoder_encode P pw
           in case subtle_importKey P ''raw'' passwordBuffer ''PBKDF2'' False [''deriveKey''] of
                Inl e \<Rightarrow> (Inl e, w1)
              | Inr passwordKey \<Rightarrow>
                  (case subtle_deriveKey P usedSalt iterations ''SHA-256'' passwordKey
                          ALGORITHM KEY_LENGTH True [''encrypt'', ''decrypt''] of
                     Inl e \<Rightarrow> (Inl e, w1)
                   | Inr k \<Rightarrow> (Inr (k, usedSalt), w1))))"

text \<open>What \<open>encrypt\<close> does once the IV is drawn.\<close>

definition encrypt_with_iv ::
  "platform \<Rightarrow> json \<Rightarrow> crypto_key \<Rightarrow> bytes option \<Rightarrow> bytes \<Rightarrow> error + encrypted_payload"
where
  "encrypt_with_iv P data k saltArg iv0 =
     (let plaintext = TextEncoder_encode P (JSON_stringify P data)
      in case subtle_encrypt P ALGORITHM iv0 k plaintext of
           Inl e \<Rightarrow> Inl e
         | Inr ct \<Rightarrow>
             Inr \<lparr>ciphertext = arrayBufferToBase64 P ct,
                  iv = arrayBufferToBase64 P iv0,
                  salt = map_option (arrayBufferToBase64 P) saltArg,
                  algorithm = ALGORITHM @ ''-'' @ digit_chars KEY_LENGTH\<rparr>)"

definition encrypt ::
  "platform \<Rightarrow> json \<Rightarrow> crypto_key \<Rightarrow> bytes option \<Rightarrow> world
     \<Rightarrow> (error + encrypted_payload) \<times> world"
where
  "encrypt P data k saltArg w =
     (case ensureAvailable P of
        Some e \<Rightarrow> (Inl e, w)
      | None \<Rightarrow>
          (let (iv0, w1) = generateIV P w
           in (encrypt_with_iv P data k saltArg iv0, w1)))"

definition decrypt :: "platform \<Rightarrow> encrypted_payload \<Rightarrow> crypto_key \<Rightarrow> error + json" where
  "decrypt P payload k =
     (case ensureAvailable P of
        Some e \<Rightarrow> Inl e
      | None \<Rightarrow>
          (case base64ToArrayBuffer P (ciphertext payload) of
             Inl e \<Rightarrow> Inl e
           | Inr ct \<Rightarrow>
               (case base64ToArrayBuffer P (iv payload) of
                  Inl e \<Rightarrow> Inl e
                | Inr iv0 \<Rightarrow>
                    (case subtle_decrypt P ALGORITHM iv0 k ct of
                       Inl e \<Rightarrow> Inl e
                     | Inr plaintext \<Rightarrow> JSON_parse P (TextDecoder_decode P plaintext)))))"

section \<open>SecureStorageService\<close>

datatype storage_type = Local | Session | Memory

datatype key_mode = SessionKey | PasswordKey | ProvidedKey

record options =
  opt_ttl :: "int option"
  opt_storage :: "storage_type option"
  opt_version :: "int option"
  opt_encrypt :: "bool option"

record config =
  cfg_keyMode :: key_mode
  cfg_password :: "string option"
  cfg_key :: "crypto_key option"

text \<open>
  \<open>options\<close> is \<^verbatim>\<open>SecureStorageOptions\<close> and \<open>config\<close> is \<^verbatim>\<open>SecureStorageConfig\<close>;
  \<open>None\<close> is a field left out. \<open>key_mode\<close> is \<^verbatim>\<open>'session' | 'password' | 'provided'\<close>.
\<close>

definition no_options :: options where
  "no_options = \<lparr>opt_ttl = None, opt_storage = None, opt_version = None, opt_encrypt = None\<rparr>"

definition storage_only :: "storage_type \<Rightarrow> options" where
  "storage_only st = no_options\<lparr>opt_storage := Some st\<rparr>"

definition storage_or_default :: "options \<Rightarrow> storage_type" where
  "storage_or_default opts = (case opt_storage opts of None \<Rightarrow> Local | Some st \<Rightarrow> st)"

definition encrypt_or_default :: "options \<Rightarrow> bool" where
  "encrypt_or_default opts = (case opt_encrypt opts of None \<Rightarrow> True | Some b \<Rightarrow> b)"

definition prefix :: string where
  "prefix = ''fly_secure_''"

definition getPrefixedKey :: "string \<Rightarrow> string" where
  "getPrefixedKey k = prefix @ k"

subsection \<open>The three backends\<close>

text \<open>What \<open>getStorage\<close> returns: a browser storage or the wrapper of the memory map.\<close>

datatype storage_ref = LocalStorage | SessionStorage | MemoryWrapper

definition backend_of :: "storage_ref \<Rightarrow> world \<Rightarrow> backend" where
  "backend_of r w =
     (case r of
        MemoryWrapper \<Rightarrow> memoryStorage w
      | LocalStorage \<Rightarrow> (case localStorage w of None \<Rightarrow> [] | Some b \<Rightarrow> b)
      | SessionStorage \<Rightarrow> (case sessionStorage w of None \<Rightarrow> [] | Some b \<Rightarrow> b))"

definition map_backend :: "storage_ref \<Rightarrow> (backend \<Rightarrow> backend) \<Rightarrow> world \<Rightarrow> world" where
  "map_backend r f w =
     (case r of
        MemoryWrapper \<Rightarrow> w\<lparr>memoryStorage := f (memoryStorage w)\<rparr>
      | LocalStorage \<Rightarrow> w\<lparr>localStorage := map_option f (localStorage w)\<rparr>
      | SessionStorage \<Rightarrow> w\<lparr>sessionStorage := map_option f (sessionStorage w)\<rparr>)"

definition getItem :: "storage_ref \<Rightarrow> string \<Rightarrow> world \<Rightarrow> string option" where
  "getItem r k w = map_of (backend_of r w) k"

definition setItem :: "storage_ref \<Rightarrow> string \<Rightarrow> string \<Rightarrow> world \<Rightarrow> world" where
  "setItem r k v w = map_backend r (AList.update k v) w"

definition removeItem :: "storage_ref \<Rightarrow> string \<Rightarrow> world \<Rightarrow> world" where
  "removeItem r k w = map_backend r (AList.delete k) w"

definition isStorageAvailable :: "storage_ref \<Rightarrow> world \<Rightarrow> bool \<times> world" where
  "isStorageAvailable r w =
     (let present = (case r of
                       LocalStorage \<Rightarrow> localStorage w \<noteq> None
                     | SessionStorage \<Rightarrow> sessionStorage w \<noteq> None
                     | MemoryWrapper \<Rightarrow> False);
          testKey = ''__storage_test__''
      in if present then (True, removeItem r testKey (setItem r testKey testKey w))
         else (False, w))"

definition getStorage :: "storage_type \<Rightarrow> world \<Rightarrow> storage_ref \<times> world" where
  "getStorage t w =
     (case t of
        Session \<Rightarrow>
          (let (ok, w1) = isStorageAvailable SessionStorage w
           in (if ok then SessionStorage else MemoryWrapper, w1))
      | Memory \<Rightarrow> (MemoryWrapper, w)
      | Local \<Rightarrow>
          (let (ok, w1) = isStorageAvailable LocalStorage w
           in (if ok then LocalStorage else MemoryWrapper, w1)))"

subsection \<open>The salt of the password mode\<close>

definition salt_key :: string where
  "salt_key = prefix @ ''_salt''"

definition loadSalt :: "platform \<Rightarrow> world \<Rightarrow> bytes option" where
  "loadSalt P w =
     (case localStorage w of
        None \<Rightarrow> None
      | Some b \<Rightarrow>
          (case map_of b salt_key of
             None \<Rightarrow> None
           | Some saltStr \<Rightarrow>
               if saltStr = [] then None
               else (case JSON_parse P saltStr of
                       Inl e \<Rightarrow> None
                     | Inr saltArray \<Rightarrow>
                         (case Uint8Array_from P saltArray of
                            Inl e \<Rightarrow> None
                          | Inr s \<Rightarrow> Some s))))"

definition saveSalt :: "platform \<Rightarrow> bytes \<Rightarrow> world \<Rightarrow> world" where
  "saveSalt P s w =
     (case localStorage w of
        None \<Rightarrow> w
      | Some b \<Rightarrow>
          w\<lparr>localStorage :=
              Some (AList.update salt_key (JSON_stringify P (JArr (map (\<lambda>x. JNum (uint x)) s))) b)\<rparr>)"

subsection \<open>Key management\<close>

definition initialize :: "platform \<Rightarrow> config \<Rightarrow> world \<Rightarrow> (error + unit) \<times> world" where
  "initialize P cfg w =
     (if \<not> isAvailable P then (Inr (), w\<lparr>initialized := True\<rparr>)
      else
        (case cfg_keyMode cfg of
           SessionKey \<Rightarrow>
             (case generateKey P w of
                (Inl e, w1) \<Rightarrow> (Inl e, w1)
              | (Inr k, w1) \<Rightarrow> (Inr (), w1\<lparr>encryptionKey := Some k, initialized := True\<rparr>))
         | PasswordKey \<Rightarrow>
             (if \<not> truthy (map_option JStr (cfg_password cfg))
              then (Inl (Error ''Password is required for password-based key derivation''), w)
              else
                (let existingSalt = loadSalt P w
                 in case deriveKey P (case cfg_password cfg of None \<Rightarrow> [] | Some pw \<Rightarrow> pw)
                           existingSalt PBKDF2_ITERATIONS w of
                      (Inl e, w1) \<Rightarrow> (Inl e, w1)
                    | (Inr (k, s), w1) \<Rightarrow>
                        (let w2 = w1\<lparr>encryptionKey := Some k, keySalt := Some s\<rparr>;
                             w3 = (if existingSalt = None then saveSalt P s w2 else w2)
                         in (Inr (), w3\<lparr>initialized := True\<rparr>))))
         | ProvidedKey \<Rightarrow>
             (case cfg_key cfg of
                None \<Rightarrow> (Inl (Error ''Key is required when using provided key mode''), w)
              | Some k \<Rightarrow> (Inr (), w\<lparr>encryptionKey := Some k, initialized := True\<rparr>))))"

definition isInitialized :: "world \<Rightarrow> bool" where
  "isInitialized w = initialized w"

definition isEncryptionAvailable :: "platform \<Rightarrow> world \<Rightarrow> bool" where
  "isEncryptionAvailable P w = (isAvailable P \<and> encryptionKey w \<noteq> None)"

definition destroy :: "world \<Rightarrow> world" where
  "destroy w = w\<lparr>encryptionKey := None, keySalt := None, initialized := False\<rparr>"

subsection \<open>Storing and reading\<close>

definition payload_json :: "encrypted_payload \<Rightarrow> json" where
  "payload_json p =
     JObj ([(''ciphertext'', JStr (ciphertext p)), (''iv'', JStr (iv p))]
           @ (case salt p of None \<Rightarrow> [] | Some s \<Rightarrow> [(''salt'', JStr s)])
           @ [(''algorithm'', JStr (algorithm p))])"

text \<open>
  The two object literals of \<open>set\<close>, as \<^verbatim>\<open>JSON.stringify\<close> sees them: a field whose
  value is \<^verbatim>\<open>undefined\<close> is left out. \<open>ttl ? Date.now() + ttl : undefined\<close> is the
  argument \<open>expires\<close>.
\<close>

definition optional_fields :: "int option \<Rightarrow> int option \<Rightarrow> (string \<times> json) list" where
  "optional_fields expires ver =
     (case expires of None \<Rightarrow> [] | Some e \<Rightarrow> [(''expiresAt'', JNum e)])
     @ (case ver of None \<Rightarrow> [] | Some v \<Rightarrow> [(''version'', JNum v)])"

definition encrypted_item :: "encrypted_payload \<Rightarrow> int \<Rightarrow> int option \<Rightarrow> int option \<Rightarrow> json" where
  "encrypted_item payload created expires ver =
     JObj ([(''encrypted'', JBool True), (''payload'', payload_json payload),
            (''createdAt'', JNum created)] @ optional_fields expires ver)"

definition plain_item :: "json \<Rightarrow> int \<Rightarrow> int option \<Rightarrow> int option \<Rightarrow> json" where
  "plain_item val created expires ver =
     JObj ([(''encrypted'', JBool False), (''value'', val), (''createdAt'', JNum created)]
           @ optional_fields expires ver)"

definition expiry :: "options \<Rightarrow> world \<Rightarrow> int option" where
  "expiry opts w =
     (case opt_ttl opts of
        None \<Rightarrow> None
      | Some t \<Rightarrow> if t \<noteq> 0 then Some (now w + t) else None)"

text \<open>The item \<open>set\<close> builds before it serialises it; building it can throw.\<close>

definition build_item :: "platform \<Rightarrow> json \<Rightarrow> options \<Rightarrow> world \<Rightarrow> (error + json) \<times> world" where
  "build_item P val opts w =
     (let shouldEncrypt = (encrypt_or_default opts \<and> isEncryptionAvailable P w)
      in case (if shouldEncrypt then encryptionKey w else None) of
           Some k \<Rightarrow>
             (case encrypt P val k None w of
                (Inl e, w1) \<Rightarrow> (Inl e, w1)
              | (Inr payload, w1) \<Rightarrow>
                  (Inr (encrypted_item payload (now w1) (expiry opts w1) (opt_version opts)), w1))
         | None \<Rightarrow> (Inr (plain_item val (now w) (expiry opts w) (opt_version opts)), w))"

definition set_entry ::
  "platform \<Rightarrow> string \<Rightarrow> json \<Rightarrow> options \<Rightarrow> world \<Rightarrow> (error + unit) \<times> world"
where
  "set_entry P k val opts w =
     (let prefixedKey = getPrefixedKey k
      in case build_item P val opts w of
           (Inl e, w1) \<Rightarrow> (Inl e, w1)
         | (Inr item, w1) \<Rightarrow>
             (let serialized = JSON_stringify P item;
                  (r, w2) = getStorage (storage_or_default opts) w1
              in (Inr (), setItem r prefixedKey serialized w2)))"

definition remove_entry :: "string \<Rightarrow> options \<Rightarrow> world \<Rightarrow> world" where
  "remove_entry k opts w =
     (let prefixedKey = getPrefixedKey k;
          (r, w1) = getStorage (storage_or_default opts) w
      in removeItem r prefixedKey w1)"

text \<open>
  The payload \<open>decrypt\<close> is handed: \<open>item.payload\<close> as parsed. Reading a field of
  \<^verbatim>\<open>undefined\<close> or \<^verbatim>\<open>null\<close> throws, and \<^verbatim>\<open>atob\<close> converts its argument to a string.
\<close>

definition as_payload :: "json option \<Rightarrow> error + encrypted_payload" where
  "as_payload x =
     (case x of
        None \<Rightarrow> Inl TypeError
      | Some JNull \<Rightarrow> Inl TypeError
      | Some j \<Rightarrow>
          Inr \<lparr>ciphertext = ToString_opt (prop_of j ''ciphertext''),
               iv = ToString_opt (prop_of j ''iv''),
               salt = map_option ToString (prop_of j ''salt''),
               algorithm = ToString_opt (prop_of j ''algorithm'')\<rparr>)"

text \<open>The \<open>try\<close> block of \<open>get\<close>: \<open>Inl\<close> is what its \<open>catch\<close> receives.\<close>

definition get_try ::
  "platform \<Rightarrow> string \<Rightarrow> storage_type \<Rightarrow> int option \<Rightarrow> string \<Rightarrow> world
     \<Rightarrow> (error + json option) \<times> world"
where
  "get_try P k st ver serialized w =
     (case JSON_parse P serialized of
        Inl e \<Rightarrow> (Inl e, w)
      | Inr item \<Rightarrow>
          if item = JNull then (Inl TypeError, w)
          else if truthy (prop_of item ''expiresAt'')
                  \<and> number_gt P (now w) (prop_of item ''expiresAt'')
          then (Inr None, remove_entry k (storage_only st) w)
          else if ver \<noteq> None \<and> prop_of item ''version'' \<noteq> map_option JNum ver
          then (Inr None, remove_entry k (storage_only st) w)
          else if truthy (prop_of item ''encrypted'')
          then
            (if \<not> isEncryptionAvailable P w then (Inr None, w)
             else
               (case encryptionKey w of
                  None \<Rightarrow> (Inr None, w)
                | Some ek \<Rightarrow>
                    (case as_payload (prop_of item ''payload'') of
                       Inl e \<Rightarrow> (Inl e, w)
                     | Inr payload \<Rightarrow>
                         (case decrypt P payload ek of
                            Inl e \<Rightarrow> (Inl e, w)
                          | Inr v \<Rightarrow> (Inr (Some v), w)))))
          else (Inr (prop_of item ''value''), w))"

definition get :: "platform \<Rightarrow> string \<Rightarrow> options \<Rightarrow> world \<Rightarrow> json option \<times> world" where
  "get P k opts w =
     (let st = storage_or_default opts;
          prefixedKey = getPrefixedKey k;
          (r, w1) = getStorage st w
      in case getItem r prefixedKey w1 of
           None \<Rightarrow> (None, w1)
         | Some serialized \<Rightarrow>
             if serialized = [] then (None, w1)
             else
               (case get_try P k st (opt_version opts) serialized w1 of
                  (Inr res, w2) \<Rightarrow> (res, w2)
                | (Inl e, w2) \<Rightarrow> (None, remove_entry k (storage_only st) w2)))"

definition has :: "platform \<Rightarrow> string \<Rightarrow> options \<Rightarrow> world \<Rightarrow> bool \<times> world" where
  "has P k opts w = (let (res, w1) = get P k opts w in (res \<noteq> None, w1))"

text \<open>
  \<open>clear\<close> and \<open>keys\<close> enumerate the memory map for \<^verbatim>\<open>'memory'\<close> and otherwise read
  \<^verbatim>\<open>length\<close> and \<^verbatim>\<open>key(i)\<close> of what \<open>getStorage\<close> returned; the memory wrapper has
  neither, so its loop runs zero times.
\<close>

definition enumerate_keys :: "storage_type \<Rightarrow> storage_ref \<Rightarrow> world \<Rightarrow> string list" where
  "enumerate_keys st r w =
     (if st = Memory then map fst (memoryStorage w)
      else (case r of MemoryWrapper \<Rightarrow> [] | _ \<Rightarrow> map fst (backend_of r w)))"

definition clear :: "options \<Rightarrow> world \<Rightarrow> world" where
  "clear opts w =
     (let st = storage_or_default opts;
          (r, w1) = getStorage st w;
          keysToRemove = filter (\<lambda>k. startsWith k prefix) (enumerate_keys st r w1)
      in fold (removeItem r) keysToRemove w1)"

definition keys :: "options \<Rightarrow> world \<Rightarrow> string list \<times> world" where
  "keys opts w =
     (let st = storage_or_default opts;
          (r, w1) = getStorage st w
      in (map (\<lambda>k. substring k (length prefix))
            (filter (\<lambda>k. startsWith k prefix) (enumerate_keys st r w1)), w1))"

subsection \<open>Key rotation\<close>

fun collect_items ::
  "platform \<Rightarrow> storage_type \<Rightarrow> string list \<Rightarrow> world \<Rightarrow> (string \<times> json) list \<times> world"
where
  "collect_items P st [] w = ([], w)"
| "collect_items P st (k # ks) w =
     (let (res, w1) = get P k (storage_only st) w;
          (items, w2) = collect_items P st ks w1
      in ((case res of None \<Rightarrow> items | Some v \<Rightarrow> (k, v) # items), w2))"

fun reencrypt_items ::
  "platform \<Rightarrow> storage_type \<Rightarrow> (string \<times> json) list \<Rightarrow> world \<Rightarrow> (error + unit) \<times> world"
where
  "reencrypt_items P st [] w = (Inr (), w)"
| "reencrypt_items P st ((k, v) # items) w =
     (case set_entry P k v (storage_only st) w of
        (Inl e, w1) \<Rightarrow> (Inl e, w1)
      | (Inr u, w1) \<Rightarrow> reencrypt_items P st items w1)"

definition rotateKey ::
  "platform \<Rightarrow> config \<Rightarrow> storage_type \<Rightarrow> world \<Rightarrow> (error + unit) \<times> world"
where
  "rotateKey P newConfig storageType w =
     (if \<not> isEncryptionAvailable P w
      then (Inl (Error ''Cannot rotate key - encryption not available''), w)
      else
        (let (currentKeys, w1) = keys (storage_only storageType) w;
             (items, w2) = collect_items P storageType currentKeys w1
         in case initialize P newConfig w2 of
              (Inl e, w3) \<Rightarrow> (Inl e, w3)
            | (Inr u, w3) \<Rightarrow> reencrypt_items P storageType items w3))"

section \<open>A platform to run the services on\<close>

text \<open>
  An executable platform for evaluating the services at concrete inputs: Base64 as
  \<^verbatim>\<open>btoa\<close> and \<^verbatim>\<open>atob\<close> compute it, compact JSON text, the identity as text
  encoding of 8-bit characters, and a small cipher with a one-byte authentication tag in
  place of AES-GCM and of PBKDF2.
\<close>

definition b64_alphabet :: string where
  "b64_alphabet = ''ABCDEFGHIJKLMNOPQRSTUVWXYZabcdefghijklmnopqrstuvwxyz0123456789+/''"

definition b64_char :: "nat \<Rightarrow> char" where
  "b64_char i = b64_alphabet ! (i mod 64)"

definition b64_index :: "char \<Rightarrow> nat option" where
  "b64_index c =
     (let n = (of_char c :: nat)
      in if 65 \<le> n \<and> n \<le> 90 then Some (n - 65)
         else if 97 \<le> n \<and> n \<le> 122 then Some (n - 71)
         else if 48 \<le> n \<and> n \<le> 57 then Some (n + 4)
         else if n = 43 then Some 62
         else if n = 47 then Some 63
         else None)"

fun b64_encode :: "nat list \<Rightarrow> string" where
  "b64_encode (a # b # c # rest) =
     [b64_char (a div 4), b64_char ((a mod 4) * 16 + b div 16),
      b64_char ((b mod 16) * 4 + c div 64), b64_char (c mod 64)] @ b64_encode rest"
| "b64_encode [a, b] =
     [b64_char (a div 4), b64_char ((a mod 4) * 16 + b div 16), b64_char ((b mod 16) * 4),
      CHR ''='']"
| "b64_encode [a] = [b64_char (a div 4), b64_char ((a mod 4) * 16), CHR ''='', CHR ''='']"
| "b64_encode [] = []"

fun b64_decode :: "nat list \<Rightarrow> nat list" where
  "b64_decode (p # q # r # s # rest) =
     [p * 4 + q div 16, (q mod 16) * 16 + r div 4, (r mod 4) * 64 + s] @ b64_decode rest"
| "b64_decode [p, q, r] = [p * 4 + q div 16, (q mod 16) * 16 + r div 4]"
| "b64_decode [p, q] = [p * 4 + q div 16]"
| "b64_decode [p] = []"
| "b64_decode [] = []"

definition sample_btoa :: "string \<Rightarrow> string" where
  "sample_btoa s = b64_encode (map of_char s)"

definition is_ascii_whitespace :: "char \<Rightarrow> bool" where
  "is_ascii_whitespace c = (of_char c \<in> {9, 10, 12, 13, 32 :: nat})"

definition strip_padding :: "string \<Rightarrow> string" where
  "strip_padding s =
     (if length s mod 4 = 0 \<and> s \<noteq> [] \<and> last s = CHR ''=''
      then (if butlast s \<noteq> [] \<and> last (butlast s) = CHR ''='' then butlast (butlast s)
            else butlast s)
      else s)"

definition sample_atob :: "string \<Rightarrow> error + string" where
  "sample_atob s =
     (let s1 = strip_padding (filter (\<lambda>c. \<not> is_ascii_whitespace c) s)
      in if length s1 mod 4 = 1 \<or> (\<exists>c \<in> set s1. b64_index c = None)
         then Inl (DOMException ''InvalidCharacterError'')
         else Inr (map char_of (b64_decode (map (\<lambda>c. case b64_index c of None \<Rightarrow> 0 | Some i \<Rightarrow> i) s1))))"

subsection \<open>Compact JSON text\<close>

definition quote_string :: "string \<Rightarrow> string" where
  "quote_string s =
     [CHR 0x22]
     @ concat (map (\<lambda>c. if c = CHR 0x22 \<or> c = CHR 0x5C then [CHR 0x5C, c] else [c]) s)
     @ [CHR 0x22]"

fun sample_stringify :: "json \<Rightarrow> string" where
  "sample_stringify JNull = ''null''"
| "sample_stringify (JBool b) = (if b then ''true'' else ''false'')"
| "sample_stringify (JNum n) = show_int n"
| "sample_stringify (JStr s) = quote_string s"
| "sample_stringify (JArr xs) = ''['' @ join_comma (map sample_stringify xs) @ '']''"
| "sample_stringify (JObj fs) =
     ''{'' @ join_comma (map (\<lambda>f. quote_string (fst f) @ '':'' @ sample_stringify (snd f)) fs)
     @ ''}''"

fun read_string :: "string \<Rightarrow> (string \<times> string) option" where
  "read_string [] = None"
| "read_string [c] = (if c = CHR 0x22 then Some ([], []) else None)"
| "read_string (c # d # cs) =
     (if c = CHR 0x22 then Some ([], d # cs)
      else if c = CHR 0x5C
      then (if d = CHR 0x22 \<or> d = CHR 0x5C
            then map_option (\<lambda>(s, r). (d # s, r)) (read_string cs) else None)
      else map_option (\<lambda>(s, r). (c # s, r)) (read_string (d # cs)))"

definition is_digit :: "char \<Rightarrow> bool" where
  "is_digit c = (48 \<le> (of_char c :: nat) \<and> (of_char c :: nat) \<le> 57)"

definition digits_value :: "string \<Rightarrow> int" where
  "digits_value ds = foldl (\<lambda>acc c. 10 * acc + (of_char c - 48)) 0 ds"

definition read_number :: "string \<Rightarrow> (int \<times> string) option" where
  "read_number cs =
     (let neg = (cs \<noteq> [] \<and> hd cs = CHR ''-'');
          body = (if neg then tl cs else cs);
          ds = takeWhile is_digit body
      in if ds = [] then None
         else Some ((if neg then - digits_value ds else digits_value ds),
                    dropWhile is_digit body))"

text \<open>
  A recursive-descent reader of the text \<open>sample_stringify\<close> writes. The first argument
  bounds the nesting and the number of elements read; \<open>sample_parse\<close> starts it at the
  length of the text, which no text exceeds.
\<close>

fun read_value :: "nat \<Rightarrow> string \<Rightarrow> (json \<times> string) option"
  and read_elements :: "nat \<Rightarrow> string \<Rightarrow> (json list \<times> string) option"
  and read_fields :: "nat \<Rightarrow> string \<Rightarrow> ((string \<times> json) list \<times> string) option"
where
  "read_value 0 cs = None"
| "read_value (Suc n) [] = None"
| "read_value (Suc n) (c # cs) =
     (if c = CHR ''n'' then (if take 3 cs = ''ull'' then Some (JNull, drop 3 cs) else None)
      else if c = CHR ''t'' then (if take 3 cs = ''rue'' then Some (JBool True, drop 3 cs) else None)
      else if c = CHR ''f''
      then (if take 4 cs = ''alse'' then Some (JBool False, drop 4 cs) else None)
      else if c = CHR 0x22 then map_option (\<lambda>(s, r). (JStr s, r)) (read_string cs)
      else if c = CHR ''[''
      then (if take 1 cs = '']'' then Some (JArr [], drop 1 cs)
            else map_option (\<lambda>(xs, r). (JArr xs, r)) (read_elements n cs))
      else if c = CHR ''{''
      then (if take 1 cs = ''}'' then Some (JObj [], drop 1 cs)
            else map_option (\<lambda>(fs, r). (JObj fs, r)) (read_fields n cs))
      else map_option (\<lambda>(i, r). (JNum i, r)) (read_number (c # cs)))"
| "read_elements 0 cs = None"
| "read_elements (Suc n) [] = None"
| "read_elements (Suc n) (c # cs) =
     (case read_value n (c # cs) of
        None \<Rightarrow> None
      | Some (x, r) \<Rightarrow>
          if take 1 r = '']'' then Some ([x], drop 1 r)
          else if take 1 r = '',''
          then map_option (\<lambda>(xs, r'). (x # xs, r')) (read_elements n (drop 1 r))
          else None)"
| "read_fields 0 cs = None"
| "read_fields (Suc n) [] = None"
| "read_fields (Suc n) (c # cs) =
     (if c \<noteq> CHR 0x22 then None
      else
        (case read_string cs of
           None \<Rightarrow> None
         | Some (name, r) \<Rightarrow>
             if take 1 r \<noteq> '':'' then None
             else
               (case read_value n (drop 1 r) of
                  None \<Rightarrow> None
                | Some (x, r1) \<Rightarrow>
                    if take 1 r1 = ''}'' then Some ([(name, x)], drop 1 r1)
                    else if take 1 r1 = '',''
                    then map_option (\<lambda>(fs, r2). ((name, x) # fs, r2)) (read_fields n (drop 1 r1))
                    else None)))"

definition sample_parse :: "string \<Rightarrow> error + json" where
  "sample_parse s =
     (case read_value (Suc (length s)) s of
        Some (j, []) \<Rightarrow> Inr j
      | _ \<Rightarrow> Inl SyntaxError)"

definition sample_StringToNumber :: "string \<Rightarrow> int option" where
  "sample_StringToNumber s =
     (if s = [] then Some 0
      else (case read_number s of Some (i, []) \<Rightarrow> Some i | _ \<Rightarrow> None))"

subsection \<open>A cipher with an authentication tag\<close>

definition mask_of :: "crypto_key \<Rightarrow> bytes \<Rightarrow> byte" where
  "mask_of k iv0 = sum_list (key_material k) + sum_list iv0 + 1"

text \<open>The tag is computed over the key, the IV and the masked bytes.\<close>

definition tag_of :: "crypto_key \<Rightarrow> bytes \<Rightarrow> bytes \<Rightarrow> byte" where
  "tag_of k iv0 body = sum_list (key_material k) + sum_list iv0 + sum_list body + 7"

definition sample_encrypt :: "string \<Rightarrow> bytes \<Rightarrow> crypto_key \<Rightarrow> bytes \<Rightarrow> error + bytes" where
  "sample_encrypt name iv0 k pt =
     (if name \<noteq> ''AES-GCM'' \<or> key_algorithm k \<noteq> ''AES-GCM'' \<or> ''encrypt'' \<notin> set (key_usages k)
      then Inl (DOMException ''InvalidAccessError'')
      else
        (let body = map (\<lambda>b. b + mask_of k iv0) pt
         in Inr (body @ [tag_of k iv0 body])))"

definition sample_decrypt :: "string \<Rightarrow> bytes \<Rightarrow> crypto_key \<Rightarrow> bytes \<Rightarrow> error + bytes" where
  "sample_decrypt name iv0 k ct =
     (if name \<noteq> ''AES-GCM'' \<or> key_algorithm k \<noteq> ''AES-GCM'' \<or> ''decrypt'' \<notin> set (key_usages k)
      then Inl (DOMException ''InvalidAccessError'')
      else if ct = [] then Inl (DOMException ''OperationError'')
      else if last ct = tag_of k iv0 (butlast ct)
      then Inr (map (\<lambda>b. b - mask_of k iv0) (butlast ct))
      else Inl (DOMException ''OperationError''))"

definition sample_platform :: platform where
  "sample_platform =
     \<lparr>subtle_present = True,
      subtle_generateKey =
        (\<lambda>n name len ext us. Inr (CryptoKey name ext us [word_of_nat n, 2, 3, 5])),
      subtle_importKey = (\<lambda>fmt raw name ext us. Inr (CryptoKey name ext us raw)),
      subtle_deriveKey =
        (\<lambda>salt0 iterations hash baseKey name len ext us.
           Inr (CryptoKey name ext us (salt0 @ key_material baseKey))),
      subtle_encrypt = sample_encrypt,
      subtle_decrypt = sample_decrypt,
      getRandomValues = (\<lambda>n len. map (\<lambda>i. word_of_nat (37 * n + 11 * i + 5)) [0..<len]),
      btoa = sample_btoa,
      atob = sample_atob,
      TextEncoder_encode = map (\<lambda>c. word_of_nat (of_char c)),
      TextDecoder_decode = map (\<lambda>b. char_of (unat b)),
      JSON_stringify = sample_stringify,
      JSON_parse = sample_parse,
      StringToNumber = sample_StringToNumber\<rparr>"

definition fresh_world :: world where
  "fresh_world =
     \<lparr>encryptionKey = None, keySalt = None, initialized = False, memoryStorage = [],
      localStorage = Some [], sessionStorage = Some [], now = 1700000000000,
      random_calls = 0, generateKey_calls = 0\<rparr>"

section \<open>Observations used in the statements\<close>

text \<open>
  \<open>ref_for\<close> is the backend \<open>getStorage\<close> selects, \<open>raw_entry\<close> the text stored under
  a caller's key there, and \<open>reads_back\<close> says that the platform's JSON codec returns a
  value from the text it wrote for it. The worlds below are inputs of the examples.
\<close>

definition ref_for :: "storage_type \<Rightarrow> world \<Rightarrow> storage_ref" where
  "ref_for st w =
     (case st of
        Memory \<Rightarrow> MemoryWrapper
      | Local \<Rightarrow> (if localStorage w = None then MemoryWrapper else LocalStorage)
      | Session \<Rightarrow> (if sessionStorage w = None then MemoryWrapper else SessionStorage))"

definition raw_entry :: "storage_type \<Rightarrow> string \<Rightarrow> world \<Rightarrow> string option" where
  "raw_entry st k w = getItem (ref_for st w) (getPrefixedKey k) w"

definition reads_back :: "platform \<Rightarrow> json \<Rightarrow> bool" where
  "reads_back P j \<longleftrightarrow>
     JSON_stringify P j \<noteq> [] \<and> JSON_parse P (JSON_stringify P j) = Inr j"

definition w_untagged :: world where
  "w_untagged = fresh_world\<lparr>localStorage := Some [(''fly_secure_k'', ''{\"value\":42}'')]\<rparr>"

definition w_garbage :: world where
  "w_garbage = fresh_world\<lparr>localStorage := Some [(''fly_secure_k'', ''not json'')]\<rparr>"

definition ttl_options :: options where
  "ttl_options = no_options\<lparr>opt_ttl := Some 1\<rparr>"

definition w_stored_ttl :: world where
  "w_stored_ttl = snd (set_entry sample_platform ''k'' (JStr ''v'') ttl_options fresh_world)"

definition binary_of :: "bytes \<Rightarrow> string" where
  "binary_of bs = map (\<lambda>b. char_of (unat b)) bs"

definition base64_reads_back :: "platform \<Rightarrow> bytes \<Rightarrow> bool" where
  "base64_reads_back P bs \<longleftrightarrow> atob P (btoa P (binary_of bs)) = Inr (binary_of bs)"

definition platform_roundtrips :: "platform \<Rightarrow> crypto_key \<Rightarrow> json \<Rightarrow> bytes \<Rightarrow> bool" where
  "platform_roundtrips P ek v iv0 \<longleftrightarrow>
     (case subtle_encrypt P ALGORITHM iv0 ek (TextEncoder_encode P (JSON_stringify P v)) of
        Inl e \<Rightarrow> False
      | Inr ct \<Rightarrow>
          base64_reads_back P iv0 \<and> base64_reads_back P ct
          \<and> subtle_decrypt P ALGORITHM iv0 ek ct = Inr (TextEncoder_encode P (JSON_stringify P v))
          \<and> TextDecoder_decode P (TextEncoder_encode P (JSON_stringify P v)) = JSON_stringify P v
          \<and> JSON_parse P (JSON_stringify P v) = Inr v)"

definition sample_key :: crypto_key where
  "sample_key = CryptoKey ''AES-GCM'' True [''encrypt'', ''decrypt''] [0, 2, 3, 5]"

definition sample_value :: json where
  "sample_value = JObj [(''name'', JStr ''John''), (''age'', JNum 30), (''tags'', JArr [JBool True, JNull])]"

definition flip_bit :: "bytes \<Rightarrow> nat \<Rightarrow> nat \<Rightarrow> bytes" where
  "flip_bit bs i j = bs[i := (bs ! i) XOR (push_bit j 1)]"

definition sample_iv :: bytes where
  "sample_iv = getRandomValues sample_platform 0 IV_LENGTH"

definition sample_ct :: bytes where
  "sample_ct =
     (case subtle_encrypt sample_platform ALGORITHM sample_iv sample_key
             (TextEncoder_encode sample_platform (JSON_stringify sample_platform (JStr ''v''))) of
        Inl e \<Rightarrow> [] | Inr ct \<Rightarrow> ct)"

definition genuine_payload :: encrypted_payload where
  "genuine_payload =
     \<lparr>ciphertext = arrayBufferToBase64 sample_platform sample_ct,
      iv = arrayBufferToBase64 sample_platform sample_iv,
      salt = None, algorithm = ''AES-GCM-256''\<rparr>"

definition tampered_payload :: encrypted_payload where
  "tampered_payload =
     genuine_payload\<lparr>ciphertext := arrayBufferToBase64 sample_platform (flip_bit sample_ct 0 0)\<rparr>"

definition w_tampered :: world where
  "w_tampered =
     fresh_world\<lparr>encryptionKey := Some sample_key, initialized := True,
       localStorage :=
         Some [(''fly_secure_k'',
                JSON_stringify sample_platform (encrypted_item tampered_payload 1 None None))]\<rparr>"

definition first_payload :: encrypted_payload where
  "first_payload =
     \<lparr>ciphertext = ''P5M/NA=='', iv = ''BRAbJjE8R1JdaHN+'', salt = None,
      algorithm = ''AES-GCM-256''\<rparr>"


definition derived_key :: "platform \<Rightarrow> string \<Rightarrow> bytes \<Rightarrow> error + crypto_key" where
  "derived_key P pw s =
     (case subtle_importKey P ''raw'' (TextEncoder_encode P pw) ''PBKDF2'' False [''deriveKey''] of
        Inl e \<Rightarrow> Inl e
      | Inr passwordKey \<Rightarrow>
          subtle_deriveKey P s PBKDF2_ITERATIONS ''SHA-256'' passwordKey ALGORITHM KEY_LENGTH True
            [''encrypt'', ''decrypt''])"

definition salt_json :: "bytes \<Rightarrow> json" where
  "salt_json s = JArr (map (\<lambda>x. JNum (uint x)) s)"

definition password_config :: "string \<Rightarrow> config" where
  "password_config pw = \<lparr>cfg_keyMode = PasswordKey, cfg_password = Some pw, cfg_key = None\<rparr>"

definition session_config :: config where
  "session_config = \<lparr>cfg_keyMode = SessionKey, cfg_password = None, cfg_key = None\<rparr>"

definition w_session :: world where
  "w_session = snd (initialize sample_platform session_config fresh_world)"

definition plain_options :: options where
  "plain_options = no_options\<lparr>opt_encrypt := Some False\<rparr>"

definition other_key :: crypto_key where
  "other_key = CryptoKey ''AES-GCM'' True [''encrypt'', ''decrypt''] [1, 2, 3, 5]"

definition w_wrong_key :: world where
  "w_wrong_key =
     (snd (set_entry sample_platform ''k'' (JStr ''v'') no_options w_session))
       \<lparr>encryptionKey := Some other_key\<rparr>"

definition w_empty_text :: world where
  "w_empty_text = fresh_world\<lparr>localStorage := Some [(''fly_secure_k'', [])]\<rparr>"

definition detects_bit_flips :: "platform \<Rightarrow> crypto_key \<Rightarrow> bytes \<Rightarrow> bytes \<Rightarrow> bool" where
  "detects_bit_flips P ek iv0 ct \<longleftrightarrow>
     (\<forall>i\<in>{0..<length ct}. \<forall>j\<in>{0..<8}.
        isl (subtle_decrypt P ALGORITHM iv0 ek (flip_bit ct i j)))
     \<and> (\<forall>i\<in>{0..<length iv0}. \<forall>j\<in>{0..<8}.
          isl (subtle_decrypt P ALGORITHM (flip_bit iv0 i j) ek ct))"

definition tampered_iv_payload :: encrypted_payload where
  "tampered_iv_payload =
     genuine_payload\<lparr>iv := arrayBufferToBase64 sample_platform (flip_bit sample_iv 0 0)\<rparr>"

definition w_tampered_iv :: world where
  "w_tampered_iv =
     fresh_world\<lparr>encryptionKey := Some sample_key, initialized := True,
       localStorage :=
         Some [(''fly_secure_k'',
                JSON_stringify sample_platform (encrypted_item tampered_iv_payload 1 None None))]\<rparr>"

definition text_flipped_payload :: encrypted_payload where
  "text_flipped_payload = genuine_payload\<lparr>ciphertext := ''P5M/NC==''\<rparr>"

definition w_text_flipped :: world where
  "w_text_flipped =
     fresh_world\<lparr>encryptionKey := Some sample_key, initialized := True,
       localStorage :=
         Some [(''fly_secure_k'',
                JSON_stringify sample_platform (encrypted_item text_flipped_payload 1 None None))]\<rparr>"



definition password_scenario :: "platform \<Rightarrow> string \<Rightarrow> string \<Rightarrow> json \<Rightarrow> world \<Rightarrow> json option" where
  "password_scenario P pw k v w0 =
     (let w1 = snd (initialize P (password_config pw) w0);
          w2 = snd (set_entry P k v no_options w1);
          w3 = destroy w2;
          w4 = snd (initialize P (password_config pw) w3)
      in fst (get P k no_options w4))"

definition token_value :: json where
  "token_value = JObj [(''jwt'', JStr ''xyz'')]"

definition w_no_local :: world where
  "w_no_local = fresh_world\<lparr>localStorage := None\<rparr>"

definition w_password :: world where
  "w_password = snd (initialize sample_platform (password_config ''abc123'') fresh_world)"

definition w_fallback_stored :: world where
  "w_fallback_stored =
     snd (set_entry sample_platform ''a'' (JStr ''v'') no_options
            (snd (initialize sample_platform session_config w_no_local)))"

definition w_local_stored :: world where
  "w_local_stored =
     snd (set_entry sample_platform ''a'' (JStr ''v'') no_options
            (snd (initialize sample_platform session_config fresh_world)))"

definition decrypt_only_key :: crypto_key where
  "decrypt_only_key = CryptoKey ''AES-GCM'' True [''decrypt''] [0, 2, 3, 5]"

definition w_decrypt_only :: world where
  "w_decrypt_only = fresh_world\<lparr>encryptionKey := Some decrypt_only_key, initialized := True\<rparr>"

section \<open>Facts about the backends, \<open>set\<close> and \<open>get\<close>\<close>

lemma fst_getStorage [simp]: "fst (getStorage st w) = ref_for st w"
  by (simp add: getStorage_def ref_for_def isStorageAvailable_def Let_def split: storage_type.splits)

lemma getItem_setItem_other [simp]:
  "k' \<noteq> k \<Longrightarrow> getItem r' k' (setItem r k v w) = getItem r' k' w"
  by (auto simp: getItem_def setItem_def map_backend_def backend_of_def update_conv'
      split: storage_ref.splits option.splits)

lemma getItem_removeItem_other [simp]:
  "k' \<noteq> k \<Longrightarrow> getItem r' k' (removeItem r k w) = getItem r' k' w"
  by (auto simp: getItem_def removeItem_def map_backend_def backend_of_def delete_conv'
      split: storage_ref.splits option.splits)

lemma getItem_removeItem_same [simp]: "getItem r k (removeItem r k w) = None"
  by (auto simp: getItem_def removeItem_def map_backend_def backend_of_def delete_conv'
      split: storage_ref.splits option.splits)

lemma getItem_setItem_same [simp]:
  "ref_for st w = r \<Longrightarrow> getItem r k (setItem r k v w) = Some v"
  by (auto simp: getItem_def setItem_def map_backend_def backend_of_def update_conv' ref_for_def
      split: storage_type.splits option.splits if_splits)

lemma getItem_other_ref [simp]:
  "r' \<noteq> r \<Longrightarrow> getItem r' k' (setItem r k v w) = getItem r' k' w"
  "r' \<noteq> r \<Longrightarrow> getItem r' k' (removeItem r k w) = getItem r' k' w"
  by (auto simp: getItem_def setItem_def removeItem_def map_backend_def backend_of_def
      split: storage_ref.splits option.splits)

lemma ref_for_setItem [simp]:
  "ref_for st (setItem r k v w) = ref_for st w"
  "ref_for st (removeItem r k w) = ref_for st w"
  by (auto simp: ref_for_def setItem_def removeItem_def map_backend_def
      split: storage_type.splits storage_ref.splits)

lemma snd_getStorage:
  "snd (getStorage st w) =
     (if ref_for st w = MemoryWrapper then w
      else removeItem (ref_for st w) ''__storage_test__''
             (setItem (ref_for st w) ''__storage_test__'' ''__storage_test__'' w))"
  by (auto simp: getStorage_def ref_for_def isStorageAvailable_def Let_def split: storage_type.splits)

lemma ref_for_getStorage [simp]: "ref_for st' (snd (getStorage st w)) = ref_for st' w"
  by (simp add: snd_getStorage)

lemma getItem_getStorage [simp]:
  "k \<noteq> ''__storage_test__'' \<Longrightarrow> getItem r k (snd (getStorage st w)) = getItem r k w"
  by (simp add: snd_getStorage)

lemma prefixed_not_test [simp]: "getPrefixedKey k \<noteq> ''__storage_test__''"
  by (simp add: getPrefixedKey_def prefix_def)

lemma storage_or_default_storage_only [simp]: "storage_or_default (storage_only st) = st"
  by (simp add: storage_or_default_def storage_only_def no_options_def)

lemma frame_updates [simp]:
  "getItem r k (w\<lparr>random_calls := n\<rparr>) = getItem r k w"
  "getItem r k (w\<lparr>generateKey_calls := n\<rparr>) = getItem r k w"
  "getItem r k (w\<lparr>encryptionKey := ek\<rparr>) = getItem r k w"
  "getItem r k (w\<lparr>keySalt := ks\<rparr>) = getItem r k w"
  "getItem r k (w\<lparr>initialized := b\<rparr>) = getItem r k w"
  "getItem r k (w\<lparr>now := t\<rparr>) = getItem r k w"
  "ref_for st (w\<lparr>random_calls := n\<rparr>) = ref_for st w"
  "ref_for st (w\<lparr>generateKey_calls := n\<rparr>) = ref_for st w"
  "ref_for st (w\<lparr>encryptionKey := ek\<rparr>) = ref_for st w"
  "ref_for st (w\<lparr>keySalt := ks\<rparr>) = ref_for st w"
  "ref_for st (w\<lparr>initialized := b\<rparr>) = ref_for st w"
  "ref_for st (w\<lparr>now := t\<rparr>) = ref_for st w"
  by (simp_all add: getItem_def backend_of_def ref_for_def split: storage_ref.splits storage_type.splits)

lemma fields_setItem [simp]:
  "encryptionKey (setItem r k v w) = encryptionKey w" "now (setItem r k v w) = now w"
  "random_calls (setItem r k v w) = random_calls w"
  "encryptionKey (removeItem r k w) = encryptionKey w" "now (removeItem r k w) = now w"
  "random_calls (removeItem r k w) = random_calls w"
  by (simp_all add: setItem_def removeItem_def map_backend_def split: storage_ref.splits)

lemma fields_getStorage [simp]:
  "encryptionKey (snd (getStorage st w)) = encryptionKey w"
  "now (snd (getStorage st w)) = now w"
  "random_calls (snd (getStorage st w)) = random_calls w"
  by (simp_all add: snd_getStorage)

lemma getStorage_eq: "getStorage st w = (ref_for st w, snd (getStorage st w))"
  by (simp add: prod_eq_iff)

lemma remove_entry_eq:
  "remove_entry k opts w =
     removeItem (ref_for (storage_or_default opts) w) (getPrefixedKey k)
       (snd (getStorage (storage_or_default opts) w))"
  by (simp add: remove_entry_def Let_def case_prod_beta)

lemma raw_entry_remove_entry [simp]:
  "raw_entry st k (remove_entry k (storage_only st) w) = None"
  by (simp add: raw_entry_def remove_entry_eq)

lemma fields_remove_entry [simp]:
  "encryptionKey (remove_entry k opts w) = encryptionKey w"
  "now (remove_entry k opts w) = now w"
  "random_calls (remove_entry k opts w) = random_calls w"
  by (simp_all add: remove_entry_eq)

lemma ref_for_remove_entry [simp]: "ref_for st (remove_entry k opts w) = ref_for st w"
  by (simp add: remove_entry_eq)

lemma isEncryptionAvailable_cong:
  "encryptionKey w' = encryptionKey w \<Longrightarrow> isEncryptionAvailable P w' = isEncryptionAvailable P w"
  by (simp add: isEncryptionAvailable_def)

lemma get_eq:
  "get P k opts w =
     (let st = storage_or_default opts; w1 = snd (getStorage st w)
      in case raw_entry st k w of
           None \<Rightarrow> (None, w1)
         | Some serialized \<Rightarrow>
             if serialized = [] then (None, w1)
             else (case get_try P k st (opt_version opts) serialized w1 of
                     (Inr res, w2) \<Rightarrow> (res, w2)
                   | (Inl e, w2) \<Rightarrow> (None, remove_entry k (storage_only st) w2)))"
  by (simp add: get_def Let_def raw_entry_def case_prod_beta)

lemma raw_entry_getStorage [simp]: "raw_entry st k (snd (getStorage st' w)) = raw_entry st k w"
  by (simp add: raw_entry_def)

lemma get_absent:
  "raw_entry (storage_or_default opts) k w = None \<Longrightarrow>
     fst (get P k opts w) = None \<and> raw_entry (storage_or_default opts) k (snd (get P k opts w)) = None"
  by (simp add: get_eq Let_def)

lemma has_absent:
  "raw_entry (storage_or_default opts) k w = None \<Longrightarrow> fst (has P k opts w) = False"
  by (simp add: has_def case_prod_beta get_absent)

lemma snd_encrypt:
  "snd (encrypt P v ek s w) = (if isAvailable P then w\<lparr>random_calls := Suc (random_calls w)\<rparr> else w)"
  by (simp add: encrypt_def ensureAvailable_def isAvailable_def generateIV_def)

lemma fst_encrypt:
  "fst (encrypt P v ek s w) =
     (if isAvailable P then encrypt_with_iv P v ek s (getRandomValues P (random_calls w) IV_LENGTH)
      else Inl unavailable)"
  by (simp add: encrypt_def ensureAvailable_def isAvailable_def generateIV_def)

lemma expiry_cong [simp]: "expiry opts (w\<lparr>random_calls := n\<rparr>) = expiry opts w"
  by (simp add: expiry_def split: option.splits)

lemma build_item_plain:
  "\<not> (encrypt_or_default opts \<and> isEncryptionAvailable P w) \<Longrightarrow>
     build_item P v opts w = (Inr (plain_item v (now w) (expiry opts w) (opt_version opts)), w)"
  by (auto simp: build_item_def)

lemma build_item_encrypted:
  "encrypt_or_default opts \<Longrightarrow> isEncryptionAvailable P w \<Longrightarrow> encryptionKey w = Some ek \<Longrightarrow>
     build_item P v opts w =
       (case fst (encrypt P v ek None w) of
          Inl e \<Rightarrow> Inl e
        | Inr payload \<Rightarrow> Inr (encrypted_item payload (now w) (expiry opts w) (opt_version opts)),
        w\<lparr>random_calls := Suc (random_calls w)\<rparr>)"
  by (cases "encrypt P v ek None w")
     (use snd_encrypt [of P v ek None w] in
       \<open>auto simp: build_item_def isEncryptionAvailable_def split: sum.splits\<close>)

lemma snd_build_item:
  "snd (build_item P v opts w) =
     (if encrypt_or_default opts \<and> isEncryptionAvailable P w
      then w\<lparr>random_calls := Suc (random_calls w)\<rparr> else w)"
proof (cases "encrypt_or_default opts \<and> isEncryptionAvailable P w")
  case True
  then obtain ek where ek: "encryptionKey w = Some ek" and av: "isAvailable P"
    by (auto simp: isEncryptionAvailable_def)
  show ?thesis
    using True av by (simp add: build_item_encrypted [OF _ _ ek])
next
  case False
  then show ?thesis by (simp add: build_item_plain)
qed

lemma set_entry_eq:
  "set_entry P k v opts w =
     (case fst (build_item P v opts w) of
        Inl e \<Rightarrow> (Inl e, snd (build_item P v opts w))
      | Inr item \<Rightarrow>
          (Inr (),
           setItem (ref_for (storage_or_default opts) w) (getPrefixedKey k) (JSON_stringify P item)
             (snd (getStorage (storage_or_default opts) (snd (build_item P v opts w))))))"
proof -
  have "ref_for (storage_or_default opts) (snd (build_item P v opts w))
          = ref_for (storage_or_default opts) w"
    by (simp add: snd_build_item)
  then show ?thesis
    by (simp add: set_entry_def Let_def case_prod_beta split: prod.splits sum.splits)
qed

lemma raw_entry_set_entry:
  "fst (build_item P v opts w) = Inr item \<Longrightarrow>
     raw_entry (storage_or_default opts) k (snd (set_entry P k v opts w))
       = Some (JSON_stringify P item)"
  by (simp add: set_entry_eq raw_entry_def snd_build_item)

lemma fst_set_entry:
  "fst (set_entry P k v opts w) = (case fst (build_item P v opts w) of Inl e \<Rightarrow> Inl e | Inr item \<Rightarrow> Inr ())"
  by (simp add: set_entry_eq split: sum.splits)

lemma prop_of_plain_item [simp]:
  "prop_of (plain_item v c e ver) ''expiresAt'' = map_option JNum e"
  "prop_of (plain_item v c e ver) ''version'' = map_option JNum ver"
  "prop_of (plain_item v c e ver) ''encrypted'' = Some (JBool False)"
  "prop_of (plain_item v c e ver) ''value'' = Some v"
  "plain_item v c e ver \<noteq> JNull"
  by (simp_all add: plain_item_def optional_fields_def split: option.splits)

lemma prop_of_encrypted_item [simp]:
  "prop_of (encrypted_item p c e ver) ''expiresAt'' = map_option JNum e"
  "prop_of (encrypted_item p c e ver) ''version'' = map_option JNum ver"
  "prop_of (encrypted_item p c e ver) ''encrypted'' = Some (JBool True)"
  "prop_of (encrypted_item p c e ver) ''payload'' = Some (payload_json p)"
  "encrypted_item p c e ver \<noteq> JNull"
  by (simp_all add: encrypted_item_def optional_fields_def split: option.splits)

lemma as_payload_payload_json [simp]: "as_payload (Some (payload_json p)) = Inr p"
  by (cases p) (simp add: as_payload_def payload_json_def ToString_opt_def split: option.splits)

lemma expired_JNum [simp]:
  "(truthy (map_option JNum e) \<and> number_gt P t (map_option JNum e)) = (\<exists>x. e = Some x \<and> x \<noteq> 0 \<and> x < t)"
  by (cases e) (auto simp: number_gt_def ToNumber_def)

lemma build_item_cases:
  assumes "fst (build_item P v opts w) = Inr item"
  shows "(\<not> (encrypt_or_default opts \<and> isEncryptionAvailable P w)
            \<and> item = plain_item v (now w) (expiry opts w) (opt_version opts))
         \<or> (encrypt_or_default opts \<and> isEncryptionAvailable P w
            \<and> (\<exists>ek payload. encryptionKey w = Some ek
                  \<and> fst (encrypt P v ek None w) = Inr payload
                  \<and> item = encrypted_item payload (now w) (expiry opts w) (opt_version opts)))"
proof (cases "encrypt_or_default opts \<and> isEncryptionAvailable P w")
  case True
  then obtain ek where ek: "encryptionKey w = Some ek"
    by (auto simp: isEncryptionAvailable_def)
  show ?thesis
    using True assms ek by (auto simp: build_item_encrypted [OF _ _ ek] split: sum.splits)
next
  case False
  then show ?thesis using assms by (simp add: build_item_plain)
qed

lemma build_item_expires:
  "fst (build_item P v opts w) = Inr item \<Longrightarrow>
     item \<noteq> JNull \<and> prop_of item ''expiresAt'' = map_option JNum (expiry opts w)"
  using build_item_cases [of P v opts w item] by auto

lemma get_try_expired:
  assumes "JSON_parse P s = Inr item" "item \<noteq> JNull"
    and "prop_of item ''expiresAt'' = Some (JNum x)" "x \<noteq> 0" "x < now w"
  shows "get_try P k st ver s w = (Inr None, remove_entry k (storage_only st) w)"
  using assms by (simp add: get_try_def number_gt_def ToNumber_def)

lemma get_try_plain:
  assumes "JSON_parse P s = Inr (plain_item v c e ver)"
    and "\<not> (\<exists>x. e = Some x \<and> x \<noteq> 0 \<and> x < now w)"
    and "gv = None \<or> gv = ver"
  shows "get_try P k st gv s w = (Inr (Some v), w)"
  using assms by (auto simp: get_try_def)

lemma get_Inl:
  assumes "raw_entry (storage_or_default opts) k w = Some s" "s \<noteq> []"
    and "fst (get_try P k (storage_or_default opts) (opt_version opts) s
               (snd (getStorage (storage_or_default opts) w))) = Inl e"
  shows "fst (get P k opts w) = None
         \<and> raw_entry (storage_or_default opts) k (snd (get P k opts w)) = None"
  using assms by (simp add: get_eq Let_def case_prod_beta split: sum.splits)

lemma prop_of_createdAt [simp]:
  "prop_of (plain_item v c e ver) ''createdAt'' = Some (JNum c)"
  "prop_of (encrypted_item p c e ver) ''createdAt'' = Some (JNum c)"
  by (simp_all add: plain_item_def encrypted_item_def)

lemma fields_set_entry [simp]:
  "now (snd (set_entry P k v opts w)) = now w"
  "encryptionKey (snd (set_entry P k v opts w)) = encryptionKey w"
  by (simp_all add: set_entry_eq snd_build_item split: sum.splits)

lemma get_removed:
  assumes "raw_entry (storage_or_default opts) k w = Some s" "s \<noteq> []"
    and "get_try P k (storage_or_default opts) (opt_version opts) s
           (snd (getStorage (storage_or_default opts) w))
         = (Inr None, remove_entry k (storage_only (storage_or_default opts))
                        (snd (getStorage (storage_or_default opts) w)))"
  shows "fst (get P k opts w) = None
         \<and> raw_entry (storage_or_default opts) k (snd (get P k opts w)) = None"
  using assms by (simp add: get_eq Let_def)

lemma byte_of_char_of: "word_of_nat (of_char (char_of (unat (b :: byte)))) = b"
proof -
  have "unat b < 256" using unsigned_less [of b, where 'a = nat] by simp
  then have "(of_char (char_of (unat b)) :: nat) = unat b"
    by (simp only: of_char_of mod_less)
  moreover have "(word_of_nat (unat b) :: byte) = b" by simp
  ultimately show ?thesis by (simp only:)
qed

lemma bytes_of_binary_of: "map (\<lambda>c. word_of_nat (of_char c)) (binary_of bs) = bs"
  by (induction bs) (simp_all only: binary_of_def list.map byte_of_char_of)

lemma arrayBufferToBase64_eq: "arrayBufferToBase64 P bs = btoa P (binary_of bs)"
  by (simp only: arrayBufferToBase64_def binary_of_def)

lemma base64ToArrayBuffer_arrayBufferToBase64:
  assumes "base64_reads_back P bs"
  shows "base64ToArrayBuffer P (arrayBufferToBase64 P bs) = Inr bs"
proof -
  have "atob P (arrayBufferToBase64 P bs) = Inr (binary_of bs)"
    using assms by (simp only: base64_reads_back_def arrayBufferToBase64_eq)
  then show ?thesis
    by (simp only: base64ToArrayBuffer_def sum.case bytes_of_binary_of)
qed


lemma decrypt_encrypt_with_iv:
  assumes "isAvailable P" and "platform_roundtrips P ek v iv0"
  shows "\<exists>payload. encrypt_with_iv P v ek s iv0 = Inr payload \<and> decrypt P payload ek = Inr v"
  using assms
  by (auto simp: platform_roundtrips_def encrypt_with_iv_def decrypt_def ensureAvailable_def
      isAvailable_def base64ToArrayBuffer_arrayBufferToBase64 split: sum.splits)

lemma decrypt_rejected:
  assumes "isAvailable P" and "base64_reads_back P ct" and "base64_reads_back P iv0"
    and "ciphertext p = arrayBufferToBase64 P ct" and "iv p = arrayBufferToBase64 P iv0"
  shows "decrypt P p ek =
           (case subtle_decrypt P ALGORITHM iv0 ek ct of
              Inl e \<Rightarrow> Inl e
            | Inr plaintext \<Rightarrow> JSON_parse P (TextDecoder_decode P plaintext))"
  using assms
  by (simp add: decrypt_def ensureAvailable_def isAvailable_def
      base64ToArrayBuffer_arrayBufferToBase64)

lemma get_absent_when_unreadable:
  assumes "raw_entry (storage_or_default opts) k w = Some s" and "s \<noteq> []"
    and "(\<exists>e. JSON_parse P s = Inl e) \<or> JSON_parse P s = Inr JNull
         \<or> (\<exists>item ek e. JSON_parse P s = Inr item \<and> truthy (prop_of item ''encrypted'')
               \<and> isAvailable P \<and> encryptionKey w = Some ek
               \<and> (case as_payload (prop_of item ''payload'') of
                     Inl e' \<Rightarrow> Inl e' | Inr p \<Rightarrow> decrypt P p ek) = Inl e)"
  shows "fst (get P k opts w) = None
         \<and> raw_entry (storage_or_default opts) k (snd (get P k opts w)) = None"
proof -
  let ?st = "storage_or_default opts"
  let ?w1 = "snd (getStorage ?st w)"
  let ?res = "get_try P k ?st (opt_version opts) s ?w1"
  let ?removed = "(Inr None, remove_entry k (storage_only ?st) ?w1)"
  have "(\<exists>e. fst ?res = Inl e) \<or> ?res = ?removed"
    using assms(3)
  proof (elim disjE exE conjE)
    fix e assume "JSON_parse P s = Inl e"
    then show ?thesis by (simp add: get_try_def)
  next
    assume "JSON_parse P s = Inr JNull"
    then show ?thesis by (simp add: get_try_def)
  next
    fix item ek e
    assume "JSON_parse P s = Inr item" "truthy (prop_of item ''encrypted'')" "isAvailable P"
      "encryptionKey w = Some ek"
      "(case as_payload (prop_of item ''payload'') of
          Inl e' \<Rightarrow> Inl e' | Inr p \<Rightarrow> decrypt P p ek) = Inl e"
    then show ?thesis
      by (simp add: get_try_def isEncryptionAvailable_def split: sum.splits)
  qed
  then show ?thesis
    using get_Inl [OF assms(1,2)] get_removed [OF assms(1,2)] by blast
qed

lemma get_encrypted_without_key:
  assumes "raw_entry (storage_or_default opts) k w = Some s"
    and "JSON_parse P s = Inr (encrypted_item p c ex ver)" and "encryptionKey w = None"
  shows "fst (get P k opts w) = None"
  using assms
  by (auto simp: get_eq Let_def get_try_def isEncryptionAvailable_def split: prod.splits sum.splits)

lemma deriveKey_Some:
  "isAvailable P \<Longrightarrow>
     deriveKey P pw (Some s) PBKDF2_ITERATIONS w
       = (case derived_key P pw s of Inl e \<Rightarrow> Inl e | Inr ek \<Rightarrow> Inr (ek, s), w)"
  by (simp add: deriveKey_def derived_key_def ensureAvailable_def isAvailable_def
      split: sum.splits)

lemma deriveKey_None:
  "isAvailable P \<Longrightarrow>
     deriveKey P pw None PBKDF2_ITERATIONS w
       = (case derived_key P pw (getRandomValues P (random_calls w) SALT_LENGTH) of
            Inl e \<Rightarrow> Inl e
          | Inr ek \<Rightarrow> Inr (ek, getRandomValues P (random_calls w) SALT_LENGTH),
          w\<lparr>random_calls := Suc (random_calls w)\<rparr>)"
  by (simp add: deriveKey_def derived_key_def ensureAvailable_def isAvailable_def generateSalt_def
      split: sum.splits)

lemma Uint8Array_from_salt_json [simp]: "Uint8Array_from P (salt_json s) = Inr s"
  by (simp add: Uint8Array_from_def salt_json_def ToUint8_def ToNumber_def o_def)

lemma loadSalt_eq:
  "loadSalt P w =
     (if localStorage w = None then None
      else (case getItem LocalStorage salt_key w of
              None \<Rightarrow> None
            | Some t \<Rightarrow>
                if t = [] then None
                else (case JSON_parse P t of
                        Inl e \<Rightarrow> None
                      | Inr j \<Rightarrow> (case Uint8Array_from P j of Inl e \<Rightarrow> None | Inr s \<Rightarrow> Some s))))"
  by (simp add: loadSalt_def getItem_def backend_of_def split: option.splits)

lemma saveSalt_eq:
  "saveSalt P s w =
     (if localStorage w = None then w
      else setItem LocalStorage salt_key (JSON_stringify P (salt_json s)) w)"
  by (auto simp: saveSalt_def setItem_def map_backend_def salt_json_def split: option.splits)

lemma loadSalt_saveSalt:
  "localStorage w \<noteq> None \<Longrightarrow> reads_back P (salt_json s) \<Longrightarrow> loadSalt P (saveSalt P s w) = Some s"
  by (auto simp: loadSalt_eq saveSalt_eq reads_back_def setItem_def map_backend_def
      getItem_def backend_of_def update_conv')

lemma initialize_password:
  assumes "isAvailable P" and "pw \<noteq> []"
  shows "initialize P (password_config pw) w =
           (case loadSalt P w of
              Some s \<Rightarrow>
                (case derived_key P pw s of
                   Inl e \<Rightarrow> (Inl e, w)
                 | Inr ek \<Rightarrow>
                     (Inr (), w\<lparr>encryptionKey := Some ek, keySalt := Some s, initialized := True\<rparr>))
            | None \<Rightarrow>
                (case derived_key P pw (getRandomValues P (random_calls w) SALT_LENGTH) of
                   Inl e \<Rightarrow> (Inl e, w\<lparr>random_calls := Suc (random_calls w)\<rparr>)
                 | Inr ek \<Rightarrow>
                     (Inr (),
                      (saveSalt P (getRandomValues P (random_calls w) SALT_LENGTH)
                        (w\<lparr>random_calls := Suc (random_calls w), encryptionKey := Some ek,
                           keySalt := Some (getRandomValues P (random_calls w) SALT_LENGTH)\<rparr>))
                      \<lparr>initialized := True\<rparr>)))"
  using assms
  by (simp add: initialize_def password_config_def deriveKey_Some deriveKey_None Let_def
      split: option.splits sum.splits)

lemma get_try_encrypted:
  assumes "JSON_parse P s = Inr (encrypted_item p c e ver)"
    and "\<not> (\<exists>x. e = Some x \<and> x \<noteq> 0 \<and> x < now w)"
    and "gv = None \<or> gv = ver"
    and "isAvailable P" and "encryptionKey w = Some ek"
  shows "get_try P k st gv s w =
           (case decrypt P p ek of Inl e' \<Rightarrow> (Inl e', w) | Inr v \<Rightarrow> (Inr (Some v), w))"
  using assms by (auto simp: get_try_def isEncryptionAvailable_def split: sum.splits)

lemma get_answers:
  assumes "raw_entry (storage_or_default opts) k w = Some s" and "s \<noteq> []"
    and "get_try P k (storage_or_default opts) (opt_version opts) s
           (snd (getStorage (storage_or_default opts) w))
         = (Inr res, snd (getStorage (storage_or_default opts) w))"
  shows "fst (get P k opts w) = res
         \<and> raw_entry (storage_or_default opts) k (snd (get P k opts w)) = Some s"
  using assms by (simp add: get_eq Let_def)

lemma get_stored_encrypted:
  assumes "raw_entry (storage_or_default opts) k w = Some (JSON_stringify P (encrypted_item p c e (opt_version opts)))"
    and "reads_back P (encrypted_item p c e (opt_version opts))"
    and "\<not> (\<exists>x. e = Some x \<and> x \<noteq> 0 \<and> x < now w)"
    and "isAvailable P" and "encryptionKey w = Some ek" and "decrypt P p ek = Inr v"
  shows "fst (get P k opts w) = Some v
         \<and> raw_entry (storage_or_default opts) k (snd (get P k opts w))
             = Some (JSON_stringify P (encrypted_item p c e (opt_version opts)))"
proof -
  let ?st = "storage_or_default opts"
  let ?w1 = "snd (getStorage ?st w)"
  let ?s = "JSON_stringify P (encrypted_item p c e (opt_version opts))"
  have tx: "?s \<noteq> []" "JSON_parse P ?s = Inr (encrypted_item p c e (opt_version opts))"
    using assms(2) by (simp_all add: reads_back_def)
  have "get_try P k ?st (opt_version opts) ?s ?w1 = (Inr (Some v), ?w1)"
    using get_try_encrypted [OF tx(2), of ?w1 "opt_version opts" ek k ?st] assms(3,4,5,6) by simp
  then show ?thesis
    by (rule get_answers [OF assms(1) tx(1)])
qed

lemma get_stored_plain:
  assumes "raw_entry (storage_or_default opts) k w = Some (JSON_stringify P (plain_item v c e (opt_version opts)))"
    and "reads_back P (plain_item v c e (opt_version opts))"
    and "\<not> (\<exists>x. e = Some x \<and> x \<noteq> 0 \<and> x < now w)"
  shows "fst (get P k opts w) = Some v
         \<and> raw_entry (storage_or_default opts) k (snd (get P k opts w))
             = Some (JSON_stringify P (plain_item v c e (opt_version opts)))"
proof -
  let ?st = "storage_or_default opts"
  let ?w1 = "snd (getStorage ?st w)"
  let ?s = "JSON_stringify P (plain_item v c e (opt_version opts))"
  have tx: "?s \<noteq> []" "JSON_parse P ?s = Inr (plain_item v c e (opt_version opts))"
    using assms(2) by (simp_all add: reads_back_def)
  have "get_try P k ?st (opt_version opts) ?s ?w1 = (Inr (Some v), ?w1)"
    using get_try_plain [OF tx(2), of ?w1 "opt_version opts" k ?st] assms(3) by simp
  then show ?thesis
    by (rule get_answers [OF assms(1) tx(1)])
qed

lemma expiry_not_passed:
  "\<forall>t. opt_ttl opts = Some t \<longrightarrow> 0 \<le> t \<Longrightarrow> now w' = now w \<Longrightarrow>
     \<not> (\<exists>x. expiry opts w = Some x \<and> x \<noteq> 0 \<and> x < now w')"
  by (auto simp: expiry_def split: option.splits if_splits)

lemma set_entry_encrypted:
  assumes "encrypt_or_default opts" and "isEncryptionAvailable P w" and "encryptionKey w = Some ek"
  shows "fst (encrypt P v ek None w) = Inr payload \<Longrightarrow>
           fst (set_entry P k v opts w) = Inr ()
           \<and> raw_entry (storage_or_default opts) k (snd (set_entry P k v opts w))
               = Some (JSON_stringify P
                        (encrypted_item payload (now w) (expiry opts w) (opt_version opts)))"
    and "fst (encrypt P v ek None w) = Inl e \<Longrightarrow> fst (set_entry P k v opts w) = Inl e"
proof -
  note b = build_item_encrypted [OF assms, of v]
  show "fst (set_entry P k v opts w) = Inl e" if "fst (encrypt P v ek None w) = Inl e"
    using that b by (simp add: fst_set_entry)
  assume p: "fst (encrypt P v ek None w) = Inr payload"
  then have item: "fst (build_item P v opts w)
                     = Inr (encrypted_item payload (now w) (expiry opts w) (opt_version opts))"
    using b by simp
  show "fst (set_entry P k v opts w) = Inr ()
        \<and> raw_entry (storage_or_default opts) k (snd (set_entry P k v opts w))
            = Some (JSON_stringify P
                     (encrypted_item payload (now w) (expiry opts w) (opt_version opts)))"
    using raw_entry_set_entry [OF item, of k] item by (simp add: fst_set_entry)
qed

lemma decrypt_same_bytes:
  "base64ToArrayBuffer P t = base64ToArrayBuffer P (ciphertext p) \<Longrightarrow>
     decrypt P (p\<lparr>ciphertext := t\<rparr>) ek = decrypt P p ek"
  by (simp add: decrypt_def split: option.splits sum.splits)

lemma salt_key_prefixed: "salt_key = getPrefixedKey ''_salt''"
  by (simp add: salt_key_def getPrefixedKey_def)

lemma getPrefixedKey_inj [simp]: "(getPrefixedKey k = getPrefixedKey k') = (k = k')"
  by (simp add: getPrefixedKey_def)

lemma salt_key_not_test [simp]: "salt_key \<noteq> ''__storage_test__''"
  by (simp add: salt_key_prefixed)

lemma localStorage_usable: "(localStorage w = None) = (ref_for Local w = MemoryWrapper)"
  by (simp add: ref_for_def)

lemma loadSalt_cong:
  "ref_for Local w' = ref_for Local w \<Longrightarrow>
   getItem LocalStorage salt_key w' = getItem LocalStorage salt_key w \<Longrightarrow>
     loadSalt P w' = loadSalt P w"
  by (simp add: loadSalt_eq localStorage_usable)

lemma snd_set_entry:
  "snd (set_entry P k v opts w) =
     (case fst (build_item P v opts w) of
        Inl e \<Rightarrow> snd (build_item P v opts w)
      | Inr item \<Rightarrow>
          setItem (ref_for (storage_or_default opts) w) (getPrefixedKey k) (JSON_stringify P item)
            (snd (getStorage (storage_or_default opts) (snd (build_item P v opts w)))))"
  by (simp add: set_entry_eq split: sum.splits)

lemma getItem_set_entry_other:
  "k' \<noteq> getPrefixedKey k \<Longrightarrow> k' \<noteq> ''__storage_test__'' \<Longrightarrow>
     getItem r k' (snd (set_entry P k v opts w)) = getItem r k' w"
  by (simp add: snd_set_entry snd_build_item split: sum.splits)

lemma ref_for_set_entry [simp]: "ref_for st (snd (set_entry P k v opts w)) = ref_for st w"
  by (simp add: snd_set_entry snd_build_item split: sum.splits)

lemma destroy_frame [simp]:
  "getItem r k (destroy w) = getItem r k w" "ref_for st (destroy w) = ref_for st w"
  "now (destroy w) = now w" "random_calls (destroy w) = random_calls w"
  "localStorage (destroy w) = localStorage w" "sessionStorage (destroy w) = sessionStorage w"
  "memoryStorage (destroy w) = memoryStorage w"
  "encryptionKey (destroy w) = None" "keySalt (destroy w) = None" "initialized (destroy w) = False"
  by (simp_all add: destroy_def)

lemma raw_entry_destroy [simp]: "raw_entry st k (destroy w) = raw_entry st k w"
  by (simp add: raw_entry_def)

lemma loadSalt_set_entry:
  "k \<noteq> ''_salt'' \<Longrightarrow> loadSalt P (snd (set_entry P k v opts w)) = loadSalt P w"
  by (rule loadSalt_cong) (simp_all add: getItem_set_entry_other salt_key_prefixed)

lemma loadSalt_destroy [simp]: "loadSalt P (destroy w) = loadSalt P w"
  by (rule loadSalt_cong) simp_all

lemma loadSalt_frame [simp]:
  "loadSalt P (w\<lparr>encryptionKey := ek\<rparr>) = loadSalt P w"
  "loadSalt P (w\<lparr>keySalt := ks\<rparr>) = loadSalt P w"
  "loadSalt P (w\<lparr>initialized := b\<rparr>) = loadSalt P w"
  "loadSalt P (w\<lparr>random_calls := n\<rparr>) = loadSalt P w"
  by (simp_all add: loadSalt_def)

lemma saveSalt_frame [simp]:
  "saveSalt P s (w\<lparr>encryptionKey := ek\<rparr>) = (saveSalt P s w)\<lparr>encryptionKey := ek\<rparr>"
  "saveSalt P s (w\<lparr>keySalt := ks\<rparr>) = (saveSalt P s w)\<lparr>keySalt := ks\<rparr>"
  "saveSalt P s (w\<lparr>random_calls := n\<rparr>) = (saveSalt P s w)\<lparr>random_calls := n\<rparr>"
  by (simp_all add: saveSalt_def split: option.splits)

lemma saveSalt_fields [simp]:
  "encryptionKey (saveSalt P s w) = encryptionKey w" "keySalt (saveSalt P s w) = keySalt w"
  "now (saveSalt P s w) = now w" "random_calls (saveSalt P s w) = random_calls w"
  "initialized (saveSalt P s w) = initialized w"
  by (simp_all add: saveSalt_eq setItem_def map_backend_def)

lemma saveSalt_storage [simp]:
  "ref_for st (saveSalt P s w) = ref_for st w"
  "k' \<noteq> salt_key \<Longrightarrow> getItem r k' (saveSalt P s w) = getItem r k' w"
  by (simp_all add: saveSalt_eq)

text \<open>
  What a password-mode \<open>initialize\<close> leaves behind when the key derivation succeeds: the
  key derived from the salt in use, which \<open>loadSalt\<close> finds again afterwards.
\<close>
lemma initialize_password_result:
  assumes "isAvailable P" and "pw \<noteq> []" and "localStorage w \<noteq> None"
    and "s = (case loadSalt P w of Some s0 \<Rightarrow> s0
              | None \<Rightarrow> getRandomValues P (random_calls w) SALT_LENGTH)"
    and "derived_key P pw s = Inr ek"
    and "loadSalt P w = None \<longrightarrow> reads_back P (salt_json s)"
    and "w1 = snd (initialize P (password_config pw) w)"
  shows "fst (initialize P (password_config pw) w) = Inr ()"
    and "encryptionKey w1 = Some ek" and "keySalt w1 = Some s" and "initialized w1"
    and "loadSalt P w1 = Some s"
    and "now w1 = now w" and "ref_for st w1 = ref_for st w"
    and "k' \<noteq> salt_key \<Longrightarrow> getItem r k' w1 = getItem r k' w"
    and "random_calls w1 = (if loadSalt P w = None then Suc (random_calls w) else random_calls w)"
proof -
  show "fst (initialize P (password_config pw) w) = Inr ()"
    using assms(4,5) by (simp add: initialize_password [OF assms(1,2)] split: option.splits)
  show "encryptionKey w1 = Some ek" "keySalt w1 = Some s" "initialized w1" "now w1 = now w"
    "ref_for st w1 = ref_for st w"
    "random_calls w1 = (if loadSalt P w = None then Suc (random_calls w) else random_calls w)"
    using assms(4,5,7) by (simp_all add: initialize_password [OF assms(1,2)] split: option.splits)
  show "getItem r k' w1 = getItem r k' w" if "k' \<noteq> salt_key"
    using assms(4,5,7) that by (simp add: initialize_password [OF assms(1,2)] split: option.splits)
  show "loadSalt P w1 = Some s"
  proof (cases "loadSalt P w")
    case None
    then show ?thesis
      using assms(3,4,5,6,7) loadSalt_saveSalt [of w P s]
      by (simp add: initialize_password [OF assms(1,2)])
  next
    case (Some s0)
    then show ?thesis
      using assms(4,5,7) by (simp add: initialize_password [OF assms(1,2)])
  qed
qed

lemma startsWith_prefixed [simp]: "startsWith (getPrefixedKey k) prefix"
  by (simp add: startsWith_def getPrefixedKey_def)

lemma substring_prefixed [simp]: "substring (getPrefixedKey k) (length prefix) = k"
  by (simp add: substring_def getPrefixedKey_def)


lemma fold_removeItem_frame [simp]:
  "random_calls (fold (removeItem r) ks w) = random_calls w"
  "encryptionKey (fold (removeItem r) ks w) = encryptionKey w"
  "now (fold (removeItem r) ks w) = now w"
  "ref_for st (fold (removeItem r) ks w) = ref_for st w"
  by (induction ks arbitrary: w; simp)+



lemma fold_removeItem_other:
  "k \<notin> set ks \<Longrightarrow> getItem r' k (fold (removeItem r) ks w) = getItem r' k w"
  by (induction ks arbitrary: w) simp_all






lemma clear_frame [simp]:
  "random_calls (clear opts w) = random_calls w"
  "encryptionKey (clear opts w) = encryptionKey w"
  "ref_for st (clear opts w) = ref_for st w"
  by (simp_all add: clear_def Let_def case_prod_beta)



text \<open>Without Web Crypto \<open>initialize\<close> only sets the flag, whatever the configuration is.\<close>
lemma initialize_unavailable:
  "\<not> isAvailable P \<Longrightarrow> initialize P cfg w = (Inr (), w\<lparr>initialized := True\<rparr>)"
  by (simp add: initialize_def)

text \<open>
  When \<^verbatim>\<open>'local'\<close> or \<^verbatim>\<open>'session'\<close> is served by the memory wrapper, \<open>keys\<close> lists
  nothing, and \<open>rotateKey\<close> is \<open>initialize\<close>.
\<close>
lemma keys_on_wrapper:
  assumes "st \<noteq> Memory" and "ref_for st w = MemoryWrapper"
  shows "keys (storage_only st) w = ([], w)"
  using assms by (simp add: keys_def Let_def case_prod_beta enumerate_keys_def snd_getStorage)

lemma rotateKey_on_wrapper:
  assumes "st \<noteq> Memory" and "ref_for st w = MemoryWrapper" and "isEncryptionAvailable P w"
  shows "rotateKey P cfg st w = initialize P cfg w"
  using assms(3)
  by (simp add: rotateKey_def keys_on_wrapper [OF assms(1,2)] split: prod.splits sum.splits)

section \<open>The claims\<close>




text \<open>
  C2. When Web Crypto is available, which it is whenever \<open>generateKey\<close> returned a key,
  and the platform's cipher, Base64, text and JSON codecs each return what was put into
  them at the values this encryption passes through them (\<open>platform_roundtrips\<close>: this
  is what makes \<open>v\<close> serialisable), \<open>encrypt\<close> returns a payload and \<open>decrypt\<close> of
  that payload under the same key returns \<open>v\<close>.
\<close>
theorem encrypt_decrypt_roundtrip:
  assumes "isAvailable P"
    and "platform_roundtrips P ek v (getRandomValues P (random_calls w) IV_LENGTH)"
  shows "\<exists>payload. fst (encrypt P v ek s w) = Inr payload \<and> decrypt P payload ek = Inr v"
  using decrypt_encrypt_with_iv [OF assms] assms(1) by (simp add: fst_encrypt)

text \<open>C2 at an object value and the key \<open>generateKey\<close> returns on the sample platform.\<close>
theorem encrypt_decrypt_roundtrip_witness:
  "fst (generateKey sample_platform fresh_world) = Inr sample_key
   \<and> platform_roundtrips sample_platform sample_key sample_value
        (getRandomValues sample_platform (random_calls fresh_world) IV_LENGTH)
   \<and> (\<exists>payload. fst (encrypt sample_platform sample_value sample_key None fresh_world) = Inr payload
          \<and> decrypt sample_platform payload sample_key = Inr sample_value)"
proof -
  have a: "isAvailable sample_platform" by code_simp
  have b: "platform_roundtrips sample_platform sample_key sample_value
             (getRandomValues sample_platform (random_calls fresh_world) IV_LENGTH)"
    by code_simp
  have c: "fst (generateKey sample_platform fresh_world) = Inr sample_key" by code_simp
  show ?thesis
    using encrypt_decrypt_roundtrip [OF a b, of None] b c by simp
qed

text \<open>
  C3, as the code has it. Let \<open>p\<close> be the envelope \<open>encrypt\<close> returned for a value under
  a key, \<open>iv0\<close> the IV it drew and \<open>ct\<close> the bytes the cipher returned. Flip one bit of
  \<open>ct\<close> or of \<open>iv0\<close> and write the bytes back into the envelope as Base64 (which the
  platform decodes to the same bytes). Then \<open>decrypt\<close> of the modified envelope hands
  exactly the modified bytes to the platform's \<^verbatim>\<open>subtle.decrypt\<close> and its result is the
  platform's verdict. So when the platform's AES-GCM rejects every single-bit
  modification of \<open>ct\<close> and of \<open>iv0\<close> under that key, as an authenticated cipher does
  (\<open>detects_bit_flips\<close>), \<open>decrypt\<close> fails with the very exception the platform
  raised: it returns no plaintext and does not replace the exception by one of its own
  (the code defines no \<^verbatim>\<open>AuthenticationError\<close>); a \<open>get\<close> of an entry holding the
  modified envelope returns absent, and the entry is removed when the key is present.
  What is checked are the decoded bytes: a \<open>ciphertext\<close> text that decodes to the same
  bytes gives the same result as the unmodified envelope.
\<close>
theorem tamper_detected:
  assumes "fst (encrypt P v ek sa w0) = Inr p"
    and "iv0 = getRandomValues P (random_calls w0) IV_LENGTH"
    and "subtle_encrypt P ALGORITHM iv0 ek (TextEncoder_encode P (JSON_stringify P v)) = Inr ct"
    and "(ct', iv') = (flip_bit ct i j, iv0) \<and> i < length ct \<and> j < 8
         \<or> (ct', iv') = (ct, flip_bit iv0 i j) \<and> i < length iv0 \<and> j < 8"
    and "base64_reads_back P ct'" and "base64_reads_back P iv'"
    and "p' = p\<lparr>ciphertext := arrayBufferToBase64 P ct', iv := arrayBufferToBase64 P iv'\<rparr>"
    and "raw_entry (storage_or_default opts) k w = Some s" and "s \<noteq> []"
    and "JSON_parse P s = Inr (encrypted_item p' c ex ver)"
    and "encryptionKey w = Some ek \<or> encryptionKey w = None"
  shows "ciphertext p = arrayBufferToBase64 P ct \<and> iv p = arrayBufferToBase64 P iv0
         \<and> decrypt P p' ek =
             (case subtle_decrypt P ALGORITHM iv' ek ct' of
                Inl e \<Rightarrow> Inl e
              | Inr plaintext \<Rightarrow> JSON_parse P (TextDecoder_decode P plaintext))
         \<and> (detects_bit_flips P ek iv0 ct \<longrightarrow>
              (\<exists>e. subtle_decrypt P ALGORITHM iv' ek ct' = Inl e \<and> decrypt P p' ek = Inl e)
              \<and> fst (get P k opts w) = None
              \<and> (encryptionKey w = Some ek \<longrightarrow>
                   raw_entry (storage_or_default opts) k (snd (get P k opts w)) = None))
         \<and> (\<forall>t. base64ToArrayBuffer P t = base64ToArrayBuffer P (ciphertext p) \<longrightarrow>
              decrypt P (p\<lparr>ciphertext := t\<rparr>) ek = decrypt P p ek)"
proof -
  have av: "isAvailable P"
    using assms(1) by (auto simp: fst_encrypt split: if_splits)
  have e1: "encrypt_with_iv P v ek sa iv0 = Inr p"
    using assms(1,2) av by (simp add: fst_encrypt)
  have fields: "ciphertext p = arrayBufferToBase64 P ct" "iv p = arrayBufferToBase64 P iv0"
    using e1 assms(3) by (auto simp: encrypt_with_iv_def)
  have p': "ciphertext p' = arrayBufferToBase64 P ct'" "iv p' = arrayBufferToBase64 P iv'"
    using assms(7) by simp_all
  have verdict: "decrypt P p' ek =
                   (case subtle_decrypt P ALGORITHM iv' ek ct' of
                      Inl e \<Rightarrow> Inl e
                    | Inr plaintext \<Rightarrow> JSON_parse P (TextDecoder_decode P plaintext))"
    by (rule decrypt_rejected [OF av assms(5,6) p'])
  have same: "decrypt P (p\<lparr>ciphertext := t\<rparr>) ek = decrypt P p ek"
    if "base64ToArrayBuffer P t = base64ToArrayBuffer P (ciphertext p)" for t
    using that by (rule decrypt_same_bytes)
  have detected: "(\<exists>e. subtle_decrypt P ALGORITHM iv' ek ct' = Inl e \<and> decrypt P p' ek = Inl e)
                  \<and> fst (get P k opts w) = None
                  \<and> (encryptionKey w = Some ek \<longrightarrow>
                        raw_entry (storage_or_default opts) k (snd (get P k opts w)) = None)"
    if dt: "detects_bit_flips P ek iv0 ct"
  proof -
    have "isl (subtle_decrypt P ALGORITHM iv' ek ct')"
      using dt assms(4) by (auto simp: detects_bit_flips_def)
    then obtain e where e: "subtle_decrypt P ALGORITHM iv' ek ct' = Inl e"
      by (cases "subtle_decrypt P ALGORITHM iv' ek ct'") simp_all
    have d: "decrypt P p' ek = Inl e"
      using verdict e by simp
    have absent: "fst (get P k opts w) = None"
    proof (cases "encryptionKey w")
      case None
      then show ?thesis
        using get_encrypted_without_key [OF assms(8,10)] by simp
    next
      case (Some ek')
      then have "encryptionKey w = Some ek" using assms(11) by simp
      then show ?thesis
        using get_absent_when_unreadable [OF assms(8,9), of P] av assms(10) d by auto
    qed
    have removed: "raw_entry (storage_or_default opts) k (snd (get P k opts w)) = None"
      if "encryptionKey w = Some ek"
      using get_absent_when_unreadable [OF assms(8,9), of P] av assms(10) d that by auto
    show ?thesis
      using e d absent removed by simp
  qed
  show ?thesis
    using fields verdict detected same by simp
qed

text \<open>
  C3 at the sample platform: the lowest bit of the first ciphertext byte is flipped,
  and then the lowest bit of the first IV byte; a \<open>ciphertext\<close> text that decodes to the
  same bytes is treated as the original.
\<close>
theorem tamper_detected_witness:
  "fst (encrypt sample_platform (JStr ''v'') sample_key None fresh_world) = Inr genuine_payload
   \<and> detects_bit_flips sample_platform sample_key sample_iv sample_ct
   \<and> decrypt sample_platform genuine_payload sample_key = Inr (JStr ''v'')
   \<and> decrypt sample_platform tampered_payload sample_key = Inl (DOMException ''OperationError'')
   \<and> fst (get sample_platform ''k'' no_options w_tampered) = None
   \<and> raw_entry Local ''k'' (snd (get sample_platform ''k'' no_options w_tampered)) = None
   \<and> decrypt sample_platform tampered_iv_payload sample_key
       = Inl (DOMException ''OperationError'')
   \<and> fst (get sample_platform ''k'' no_options w_tampered_iv) = None
   \<and> raw_entry Local ''k'' (snd (get sample_platform ''k'' no_options w_tampered_iv)) = None
   \<and> decrypt sample_platform (genuine_payload\<lparr>ciphertext := ''P5M/NC==''\<rparr>) sample_key
       = decrypt sample_platform genuine_payload sample_key"
proof -
  let ?pt = "TextEncoder_encode sample_platform (JSON_stringify sample_platform (JStr ''v''))"
  have a: "fst (encrypt sample_platform (JStr ''v'') sample_key None fresh_world)
             = Inr genuine_payload"
    by code_simp
  have b: "sample_iv = getRandomValues sample_platform (random_calls fresh_world) IV_LENGTH"
    by code_simp
  have c: "subtle_encrypt sample_platform ALGORITHM sample_iv sample_key ?pt = Inr sample_ct"
    by code_simp
  have d: "detects_bit_flips sample_platform sample_key sample_iv sample_ct" by code_simp
  have f1: "(flip_bit sample_ct 0 0, sample_iv) = (flip_bit sample_ct 0 0, sample_iv)
             \<and> 0 < length sample_ct \<and> (0::nat) < 8
           \<or> (flip_bit sample_ct 0 0, sample_iv) = (sample_ct, flip_bit sample_iv 0 0)
             \<and> 0 < length sample_iv \<and> (0::nat) < 8"
    by code_simp
  have f2: "(sample_ct, flip_bit sample_iv 0 0) = (flip_bit sample_ct 0 0, sample_iv)
             \<and> 0 < length sample_ct \<and> (0::nat) < 8
           \<or> (sample_ct, flip_bit sample_iv 0 0) = (sample_ct, flip_bit sample_iv 0 0)
             \<and> 0 < length sample_iv \<and> (0::nat) < 8"
    by code_simp
  have g: "base64_reads_back sample_platform (flip_bit sample_ct 0 0)"
    "base64_reads_back sample_platform sample_iv"
    "base64_reads_back sample_platform sample_ct"
    "base64_reads_back sample_platform (flip_bit sample_iv 0 0)"
    by code_simp+
  have p1: "tampered_payload =
              genuine_payload\<lparr>ciphertext := arrayBufferToBase64 sample_platform (flip_bit sample_ct 0 0),
                iv := arrayBufferToBase64 sample_platform sample_iv\<rparr>"
    by (simp add: tampered_payload_def genuine_payload_def)
  have p2: "tampered_iv_payload =
              genuine_payload\<lparr>ciphertext := arrayBufferToBase64 sample_platform sample_ct,
                iv := arrayBufferToBase64 sample_platform (flip_bit sample_iv 0 0)\<rparr>"
    by (simp add: tampered_iv_payload_def genuine_payload_def)
  have s1: "raw_entry (storage_or_default no_options) ''k'' w_tampered
             = Some (JSON_stringify sample_platform (encrypted_item tampered_payload 1 None None))"
    "JSON_stringify sample_platform (encrypted_item tampered_payload 1 None None) \<noteq> []"
    "JSON_parse sample_platform
       (JSON_stringify sample_platform (encrypted_item tampered_payload 1 None None))
     = Inr (encrypted_item tampered_payload 1 None None)"
    "encryptionKey w_tampered = Some sample_key \<or> encryptionKey w_tampered = None"
    by code_simp+
  have s2: "raw_entry (storage_or_default no_options) ''k'' w_tampered_iv
             = Some (JSON_stringify sample_platform (encrypted_item tampered_iv_payload 1 None None))"
    "JSON_stringify sample_platform (encrypted_item tampered_iv_payload 1 None None) \<noteq> []"
    "JSON_parse sample_platform
       (JSON_stringify sample_platform (encrypted_item tampered_iv_payload 1 None None))
     = Inr (encrypted_item tampered_iv_payload 1 None None)"
    "encryptionKey w_tampered_iv = Some sample_key \<or> encryptionKey w_tampered_iv = None"
    by code_simp+
  have k: "encryptionKey w_tampered = Some sample_key"
    "encryptionKey w_tampered_iv = Some sample_key"
    "storage_or_default no_options = Local"
    "decrypt sample_platform genuine_payload sample_key = Inr (JStr ''v'')"
    "subtle_decrypt sample_platform ALGORITHM sample_iv sample_key (flip_bit sample_ct 0 0)
       = Inl (DOMException ''OperationError'')"
    "subtle_decrypt sample_platform ALGORITHM (flip_bit sample_iv 0 0) sample_key sample_ct
       = Inl (DOMException ''OperationError'')"
    by code_simp+
  have first: "decrypt sample_platform tampered_payload sample_key
                 = Inl (DOMException ''OperationError'')
     \<and> fst (get sample_platform ''k'' no_options w_tampered) = None
     \<and> raw_entry Local ''k'' (snd (get sample_platform ''k'' no_options w_tampered)) = None"
    using tamper_detected [OF a b c f1 g(1,2) p1 s1] d k by simp
  have second: "decrypt sample_platform tampered_iv_payload sample_key
                 = Inl (DOMException ''OperationError'')
     \<and> fst (get sample_platform ''k'' no_options w_tampered_iv) = None
     \<and> raw_entry Local ''k'' (snd (get sample_platform ''k'' no_options w_tampered_iv)) = None"
    using tamper_detected [OF a b c f2 g(3,4) p2 s2] d k by simp
  have t: "base64ToArrayBuffer sample_platform ''P5M/NC==''
             = base64ToArrayBuffer sample_platform (ciphertext genuine_payload)"
    by code_simp
  have third: "decrypt sample_platform (genuine_payload\<lparr>ciphertext := ''P5M/NC==''\<rparr>) sample_key
                 = decrypt sample_platform genuine_payload sample_key"
    using tamper_detected [OF a b c f1 g(1,2) p1 s1] t by blast
  show ?thesis
    using first second third a d k(4) by simp
qed

text \<open>
  C3 as stated fails on the stored text. The last group of the \<open>ciphertext\<close> text
  \<^verbatim>\<open>P5M/NA==\<close> carries four bits that belong to no byte; changing \<^verbatim>\<open>A\<close> to \<^verbatim>\<open>C\<close> is a
  single-bit modification of the text that decodes to the same bytes, so \<open>decrypt\<close>
  returns the plaintext and \<open>get\<close> the value, with no failure at all.
\<close>
theorem decrypt_accepts_text_bit_flip:
  "ciphertext genuine_payload = ''P5M/NA==''
   \<and> text_flipped_payload = genuine_payload\<lparr>ciphertext := ''P5M/NC==''\<rparr>
   \<and> (of_char CHR ''A'' :: byte) XOR push_bit 1 1 = of_char CHR ''C''
   \<and> decrypt sample_platform text_flipped_payload sample_key = Inr (JStr ''v'')
   \<and> fst (get sample_platform ''k'' no_options w_text_flipped) = Some (JStr ''v'')"
  by code_simp

text \<open>
  C4, as the code has it. Let Web Crypto and \<^verbatim>\<open>localStorage\<close> be available, the password
  not empty and the caller's key not \<^verbatim>\<open>_salt\<close>. Let \<open>s\<close> be the salt the first
  \<open>initialize\<close> uses (the persisted one, or else a fresh draw, which it persists), let
  the platform derive the key \<open>ek\<close> from the password and \<open>s\<close>, and let the platform's
  JSON read back the salt and the stored item, and its cipher and codecs return what was
  put into them. Then in the sequence \<open>initialize\<close>, \<open>set\<close>, \<open>destroy\<close>,
  \<open>initialize\<close>, \<open>get\<close> with the same password and default options every step
  returns: \<open>destroy\<close> clears the key, the salt and the flag in memory and leaves the
  three backends as they are, the second \<open>initialize\<close> loads the persisted salt
  (drawing no new one) and derives the same key, and \<open>get\<close> returns the value stored.
\<close>
theorem password_roundtrip:
  assumes "isAvailable P" and "pw \<noteq> []" and "localStorage w0 \<noteq> None" and "k \<noteq> ''_salt''"
    and "s = (case loadSalt P w0 of Some s0 \<Rightarrow> s0
              | None \<Rightarrow> getRandomValues P (random_calls w0) SALT_LENGTH)"
    and "derived_key P pw s = Inr ek"
    and "loadSalt P w0 = None \<longrightarrow> reads_back P (salt_json s)"
    and "w1 = snd (initialize P (password_config pw) w0)"
    and "platform_roundtrips P ek v (getRandomValues P (random_calls w1) IV_LENGTH)"
    and "fst (build_item P v no_options w1) = Inr item" and "reads_back P item"
    and "w2 = snd (set_entry P k v no_options w1)" and "w3 = destroy w2"
    and "w4 = snd (initialize P (password_config pw) w3)"
  shows "fst (initialize P (password_config pw) w0) = Inr ()
         \<and> encryptionKey w1 = Some ek \<and> keySalt w1 = Some s
         \<and> fst (set_entry P k v no_options w1) = Inr ()
         \<and> localStorage w3 = localStorage w2 \<and> sessionStorage w3 = sessionStorage w2
         \<and> memoryStorage w3 = memoryStorage w2
         \<and> encryptionKey w3 = None \<and> keySalt w3 = None \<and> \<not> initialized w3
         \<and> loadSalt P w3 = Some s
         \<and> fst (initialize P (password_config pw) w3) = Inr ()
         \<and> encryptionKey w4 = Some ek \<and> keySalt w4 = Some s
         \<and> random_calls w4 = random_calls w3
         \<and> fst (get P k no_options w4) = Some v
         \<and> password_scenario P pw k v w0 = Some v"
proof -
  note r1 = initialize_password_result [OF assms(1,2,3,5,6,7,8)]
  have st: "storage_or_default no_options = Local" "opt_version no_options = None"
    "expiry no_options w1 = None"
    by (simp_all add: storage_or_default_def no_options_def expiry_def)
  have "encrypt_or_default no_options \<and> isEncryptionAvailable P w1"
    using r1(2) assms(1) by (simp add: encrypt_or_default_def no_options_def isEncryptionAvailable_def)
  then obtain payload where payload: "fst (encrypt P v ek None w1) = Inr payload"
    and item: "item = encrypted_item payload (now w1) None None"
    using build_item_cases [OF assms(10)] r1(2) st by auto
  have d: "decrypt P payload ek = Inr v"
    using decrypt_encrypt_with_iv [OF assms(1,9), of None] payload assms(1)
    by (auto simp: fst_encrypt)
  have set_ok: "fst (set_entry P k v no_options w1) = Inr ()"
    using assms(10) by (simp add: fst_set_entry)
  have raw2: "raw_entry Local k w2 = Some (JSON_stringify P item)"
    using raw_entry_set_entry [OF assms(10), of k] assms(12) st by simp
  have salt3: "loadSalt P w3 = Some s"
    using r1(5) assms(4,12,13) by (simp add: loadSalt_set_entry)
  have local3: "localStorage w3 \<noteq> None"
    using assms(3,12,13) r1(7) [of Local] by (simp add: localStorage_usable)
  have s3: "s = (case loadSalt P w3 of Some s0 \<Rightarrow> s0
                 | None \<Rightarrow> getRandomValues P (random_calls w3) SALT_LENGTH)"
    using salt3 by simp
  have rb3: "loadSalt P w3 = None \<longrightarrow> reads_back P (salt_json s)"
    using salt3 by simp
  note r4 = initialize_password_result [OF assms(1,2) local3 s3 assms(6) rb3 assms(14)]
  have "getPrefixedKey k \<noteq> salt_key"
    using assms(4) by (simp add: salt_key_prefixed)
  then have raw4: "raw_entry Local k w4 = Some (JSON_stringify P item)"
    using raw2 r4(7) [of Local] r4(8) [of "getPrefixedKey k"] assms(13)
    by (simp add: raw_entry_def)
  have now4: "now w4 = now w1"
    using r4(6) assms(12,13) by simp
  have ne: "\<not> (\<exists>x. (None :: int option) = Some x \<and> x \<noteq> 0 \<and> x < now w4)"
    by simp
  have got: "fst (get P k no_options w4) = Some v"
    using get_stored_encrypted [of no_options k w4 P payload "now w1" None ek v]
      raw4 assms(11) item ne assms(1) r4(2) d st
    by simp
  have sc: "password_scenario P pw k v w0 = fst (get P k no_options w4)"
    using assms(8,12,13,14) by (simp add: password_scenario_def Let_def)
  show ?thesis
    using r1(1,2,3) set_ok salt3 r4(1,2,3,9) got sc assms(13) by simp
qed

text \<open>
  C4 at the sample platform: the password \<^verbatim>\<open>abc123\<close>, the key \<^verbatim>\<open>token\<close> and the value
  \<^verbatim>\<open>{"jwt":"xyz"}\<close>, first on a fresh service with an empty \<^verbatim>\<open>localStorage\<close>, then
  on one that finds a salt persisted earlier.
\<close>
theorem password_roundtrip_witness:
  "loadSalt sample_platform fresh_world = None
   \<and> fst (initialize sample_platform (password_config ''abc123'') fresh_world) = Inr ()
   \<and> loadSalt sample_platform
        (destroy (snd (set_entry sample_platform ''token'' token_value no_options
                         (snd (initialize sample_platform (password_config ''abc123'') fresh_world)))))
       = Some (getRandomValues sample_platform 0 SALT_LENGTH)
   \<and> password_scenario sample_platform ''abc123'' ''token'' token_value fresh_world
       = Some token_value
   \<and> loadSalt sample_platform (destroy w_password)
       = Some (getRandomValues sample_platform 0 SALT_LENGTH)
   \<and> password_scenario sample_platform ''abc123'' ''token'' token_value (destroy w_password)
       = Some token_value"
proof -
  let ?cfg = "password_config ''abc123''"
  let ?w1 = "snd (initialize sample_platform ?cfg fresh_world)"
  let ?s = "getRandomValues sample_platform 0 SALT_LENGTH"
  let ?ek = "CryptoKey ''AES-GCM'' True [''encrypt'', ''decrypt'']
               (?s @ TextEncoder_encode sample_platform ''abc123'')"
  let ?item = "encrypted_item
                 \<lparr>ciphertext = arrayBufferToBase64 sample_platform
                    (case subtle_encrypt sample_platform ALGORITHM
                            (getRandomValues sample_platform 1 IV_LENGTH) ?ek
                            (TextEncoder_encode sample_platform
                               (JSON_stringify sample_platform token_value)) of
                       Inl e \<Rightarrow> [] | Inr ct \<Rightarrow> ct),
                  iv = arrayBufferToBase64 sample_platform (getRandomValues sample_platform 1 IV_LENGTH),
                  salt = None, algorithm = ''AES-GCM-256''\<rparr>
                 1700000000000 None None"
  have a: "isAvailable sample_platform" "''abc123'' \<noteq> []" "localStorage fresh_world \<noteq> None"
    "''token'' \<noteq> ''_salt''"
    by code_simp+
  have b: "loadSalt sample_platform fresh_world = None" by code_simp
  have c: "?s = (case loadSalt sample_platform fresh_world of Some s0 \<Rightarrow> s0
                 | None \<Rightarrow> getRandomValues sample_platform (random_calls fresh_world) SALT_LENGTH)"
    by code_simp
  have d: "derived_key sample_platform ''abc123'' ?s = Inr ?ek" by code_simp
  have e: "loadSalt sample_platform fresh_world = None \<longrightarrow> reads_back sample_platform (salt_json ?s)"
    by code_simp
  have f: "platform_roundtrips sample_platform ?ek token_value
             (getRandomValues sample_platform (random_calls ?w1) IV_LENGTH)"
    by code_simp
  have g: "fst (build_item sample_platform token_value no_options ?w1) = Inr ?item"
    by code_simp
  have h: "reads_back sample_platform ?item" by code_simp
  have first: "fst (initialize sample_platform ?cfg fresh_world) = Inr ()
     \<and> loadSalt sample_platform
          (destroy (snd (set_entry sample_platform ''token'' token_value no_options ?w1)))
         = Some ?s
     \<and> password_scenario sample_platform ''abc123'' ''token'' token_value fresh_world
         = Some token_value"
    using password_roundtrip [OF a c d e refl f g h refl refl refl] by simp
  let ?w0 = "destroy w_password"
  let ?w1' = "snd (initialize sample_platform ?cfg ?w0)"
  have a': "localStorage ?w0 \<noteq> None" by code_simp
  have b': "loadSalt sample_platform ?w0 = Some ?s" by code_simp
  have c': "?s = (case loadSalt sample_platform ?w0 of Some s0 \<Rightarrow> s0
                  | None \<Rightarrow> getRandomValues sample_platform (random_calls ?w0) SALT_LENGTH)"
    by code_simp
  have e': "loadSalt sample_platform ?w0 = None \<longrightarrow> reads_back sample_platform (salt_json ?s)"
    by code_simp
  have f': "platform_roundtrips sample_platform ?ek token_value
              (getRandomValues sample_platform (random_calls ?w1') IV_LENGTH)"
    by code_simp
  have g': "fst (build_item sample_platform token_value no_options ?w1') = Inr ?item"
    by code_simp
  have second: "password_scenario sample_platform ''abc123'' ''token'' token_value ?w0
                  = Some token_value"
    using password_roundtrip [OF a(1,2) a' a(4) c' d e' refl f' g' h refl refl refl] by simp
  show ?thesis
    using first second b b' by simp
qed

text \<open>
  C4 as stated fails in two cases. Without \<^verbatim>\<open>localStorage\<close> the salt is not persisted
  (\<open>saveSalt\<close> ignores the failure), the second \<open>initialize\<close> draws a new salt and
  \<open>get\<close> cannot decrypt the entry. Under the caller's key \<^verbatim>\<open>_salt\<close> the entry is
  written over the persisted salt.
\<close>
theorem password_scenario_counterexample:
  "password_scenario sample_platform ''abc123'' ''token'' token_value w_no_local = None
   \<and> fst (initialize sample_platform (password_config ''abc123'') w_no_local) = Inr ()
   \<and> fst (set_entry sample_platform ''token'' token_value no_options
             (snd (initialize sample_platform (password_config ''abc123'') w_no_local)))
       = Inr ()
   \<and> password_scenario sample_platform ''abc123'' ''_salt'' token_value fresh_world = None
   \<and> fst (set_entry sample_platform ''_salt'' token_value no_options
             (snd (initialize sample_platform (password_config ''abc123'') fresh_world)))
       = Inr ()"
  by code_simp

text \<open>
  C5. When \<open>options.encrypt\<close> (default true) holds and encryption is available, there is
  a current key, and \<open>set\<close> does what \<open>encrypt\<close> of the value under that key does: if
  \<open>encrypt\<close> returns a payload, \<open>set\<close> returns and has stored the text of the item with
  \<^verbatim>\<open>"encrypted": true\<close> and that payload, and a \<open>get\<close> with the same options returns
  the value (if the platform's cipher and codecs return what was put into them and the
  ttl is not negative); if \<open>encrypt\<close> throws, \<open>set\<close> throws the same. Otherwise
  \<open>set\<close> always returns and has stored the text of the plain item, with
  \<^verbatim>\<open>"encrypted": false\<close> and the value itself, and a \<open>get\<close> with the same options
  returns the value under the same conditions on the codec and the ttl. With
  \<^verbatim>\<open>encrypt: false\<close> the item is always the plain one. Encryption is unavailable after
  \<open>destroy\<close>, without a key and without Web Crypto.
\<close>
theorem set_entry_variant:
  "(encrypt_or_default opts \<and> isEncryptionAvailable P w \<longrightarrow>
      (\<exists>ek. encryptionKey w = Some ek
         \<and> (\<forall>payload. fst (encrypt P v ek None w) = Inr payload \<longrightarrow>
               fst (set_entry P k v opts w) = Inr ()
               \<and> raw_entry (storage_or_default opts) k (snd (set_entry P k v opts w))
                   = Some (JSON_stringify P
                            (encrypted_item payload (now w) (expiry opts w) (opt_version opts)))
               \<and> prop_of (encrypted_item payload (now w) (expiry opts w) (opt_version opts))
                     ''encrypted'' = Some (JBool True)
               \<and> prop_of (encrypted_item payload (now w) (expiry opts w) (opt_version opts))
                     ''payload'' = Some (payload_json payload)
               \<and> (platform_roundtrips P ek v (getRandomValues P (random_calls w) IV_LENGTH)
                    \<and> reads_back P
                         (encrypted_item payload (now w) (expiry opts w) (opt_version opts))
                    \<and> (\<forall>t. opt_ttl opts = Some t \<longrightarrow> 0 \<le> t)
                    \<longrightarrow> fst (get P k opts (snd (set_entry P k v opts w))) = Some v))
         \<and> (\<forall>e. fst (encrypt P v ek None w) = Inl e \<longrightarrow>
               fst (set_entry P k v opts w) = Inl e)))
   \<and> (\<not> (encrypt_or_default opts \<and> isEncryptionAvailable P w) \<longrightarrow>
        fst (set_entry P k v opts w) = Inr ()
        \<and> raw_entry (storage_or_default opts) k (snd (set_entry P k v opts w))
            = Some (JSON_stringify P (plain_item v (now w) (expiry opts w) (opt_version opts)))
        \<and> prop_of (plain_item v (now w) (expiry opts w) (opt_version opts)) ''encrypted''
            = Some (JBool False)
        \<and> prop_of (plain_item v (now w) (expiry opts w) (opt_version opts)) ''value'' = Some v
        \<and> (reads_back P (plain_item v (now w) (expiry opts w) (opt_version opts))
             \<and> (\<forall>t. opt_ttl opts = Some t \<longrightarrow> 0 \<le> t)
             \<longrightarrow> fst (get P k opts (snd (set_entry P k v opts w))) = Some v))
   \<and> (opt_encrypt opts = Some False \<longrightarrow> \<not> encrypt_or_default opts)
   \<and> \<not> isEncryptionAvailable P (destroy w)
   \<and> (\<not> isAvailable P \<or> encryptionKey w = None \<longrightarrow> \<not> isEncryptionAvailable P w)"
proof (intro conjI impI)
  assume c: "encrypt_or_default opts \<and> isEncryptionAvailable P w"
  then obtain ek where ek: "encryptionKey w = Some ek" and av: "isAvailable P"
    by (auto simp: isEncryptionAvailable_def)
  let ?w2 = "snd (set_entry P k v opts w)"
  have "fst (get P k opts ?w2) = Some v"
    if p: "fst (encrypt P v ek None w) = Inr payload"
      and r: "platform_roundtrips P ek v (getRandomValues P (random_calls w) IV_LENGTH)"
        "reads_back P (encrypted_item payload (now w) (expiry opts w) (opt_version opts))"
        "\<forall>t. opt_ttl opts = Some t \<longrightarrow> 0 \<le> t"
    for payload
  proof -
    have d: "decrypt P payload ek = Inr v"
      using decrypt_encrypt_with_iv [OF av r(1), of None] p av by (auto simp: fst_encrypt)
    have raw: "raw_entry (storage_or_default opts) k ?w2
                 = Some (JSON_stringify P
                          (encrypted_item payload (now w) (expiry opts w) (opt_version opts)))"
      using set_entry_encrypted(1) [OF _ _ ek p] c by simp
    have ne: "\<not> (\<exists>x. expiry opts w = Some x \<and> x \<noteq> 0 \<and> x < now ?w2)"
      by (rule expiry_not_passed [OF r(3)]) simp
    show ?thesis
      using get_stored_encrypted [OF raw r(2) ne av _ d] ek by simp
  qed
  then show "\<exists>ek. encryptionKey w = Some ek
         \<and> (\<forall>payload. fst (encrypt P v ek None w) = Inr payload \<longrightarrow>
               fst (set_entry P k v opts w) = Inr ()
               \<and> raw_entry (storage_or_default opts) k (snd (set_entry P k v opts w))
                   = Some (JSON_stringify P
                            (encrypted_item payload (now w) (expiry opts w) (opt_version opts)))
               \<and> prop_of (encrypted_item payload (now w) (expiry opts w) (opt_version opts))
                     ''encrypted'' = Some (JBool True)
               \<and> prop_of (encrypted_item payload (now w) (expiry opts w) (opt_version opts))
                     ''payload'' = Some (payload_json payload)
               \<and> (platform_roundtrips P ek v (getRandomValues P (random_calls w) IV_LENGTH)
                    \<and> reads_back P
                         (encrypted_item payload (now w) (expiry opts w) (opt_version opts))
                    \<and> (\<forall>t. opt_ttl opts = Some t \<longrightarrow> 0 \<le> t)
                    \<longrightarrow> fst (get P k opts (snd (set_entry P k v opts w))) = Some v))
         \<and> (\<forall>e. fst (encrypt P v ek None w) = Inl e \<longrightarrow>
               fst (set_entry P k v opts w) = Inl e)"
    using set_entry_encrypted [OF _ _ ek, of opts P v _ k] c ek by simp
next
  assume c: "\<not> (encrypt_or_default opts \<and> isEncryptionAvailable P w)"
  then have item: "fst (build_item P v opts w)
                     = Inr (plain_item v (now w) (expiry opts w) (opt_version opts))"
    by (simp add: build_item_plain)
  show "fst (set_entry P k v opts w) = Inr ()"
    by (simp add: fst_set_entry item)
  show raw: "raw_entry (storage_or_default opts) k (snd (set_entry P k v opts w))
          = Some (JSON_stringify P (plain_item v (now w) (expiry opts w) (opt_version opts)))"
    by (rule raw_entry_set_entry [OF item])
  show "prop_of (plain_item v (now w) (expiry opts w) (opt_version opts)) ''encrypted''
          = Some (JBool False)"
    by simp
  show "prop_of (plain_item v (now w) (expiry opts w) (opt_version opts)) ''value'' = Some v"
    by simp
  assume r: "reads_back P (plain_item v (now w) (expiry opts w) (opt_version opts))
             \<and> (\<forall>t. opt_ttl opts = Some t \<longrightarrow> 0 \<le> t)"
  have ne: "\<not> (\<exists>x. expiry opts w = Some x \<and> x \<noteq> 0 \<and> x < now (snd (set_entry P k v opts w)))"
    using r by (intro expiry_not_passed) simp_all
  show "fst (get P k opts (snd (set_entry P k v opts w))) = Some v"
    using get_stored_plain [OF raw _ ne] r by simp
next
  assume "opt_encrypt opts = Some False"
  then show "\<not> encrypt_or_default opts"
    by (simp add: encrypt_or_default_def)
next
  show "\<not> isEncryptionAvailable P (destroy w)"
    by (simp add: isEncryptionAvailable_def destroy_def)
next
  assume "\<not> isAvailable P \<or> encryptionKey w = None"
  then show "\<not> isEncryptionAvailable P w"
    by (auto simp: isEncryptionAvailable_def)
qed

text \<open>
  C5 at the sample platform: with the session key of \<open>initialize\<close> the stored text is
  the encrypted item, with \<^verbatim>\<open>encrypt: false\<close> and before \<open>initialize\<close> it is the plain
  one, and \<open>get\<close> returns the value each time; under a key that may not encrypt,
  \<open>set\<close> throws what \<open>encrypt\<close> throws.
\<close>
theorem set_entry_variant_witness:
  "isEncryptionAvailable sample_platform w_session
   \<and> fst (set_entry sample_platform ''k'' (JStr ''v'') no_options w_session) = Inr ()
   \<and> raw_entry Local ''k'' (snd (set_entry sample_platform ''k'' (JStr ''v'') no_options w_session))
       = Some ''{\"encrypted\":true,\"payload\":{\"ciphertext\":\"P5M/NA==\",\"iv\":\"BRAbJjE8R1JdaHN+\",\"algorithm\":\"AES-GCM-256\"},\"createdAt\":1700000000000}''
   \<and> fst (get sample_platform ''k'' no_options
             (snd (set_entry sample_platform ''k'' (JStr ''v'') no_options w_session)))
       = Some (JStr ''v'')
   \<and> raw_entry Local ''k'' (snd (set_entry sample_platform ''k'' (JStr ''v'') plain_options w_session))
       = Some ''{\"encrypted\":false,\"value\":\"v\",\"createdAt\":1700000000000}''
   \<and> fst (get sample_platform ''k'' plain_options
             (snd (set_entry sample_platform ''k'' (JStr ''v'') plain_options w_session)))
       = Some (JStr ''v'')
   \<and> \<not> isEncryptionAvailable sample_platform fresh_world
   \<and> reads_back sample_platform (plain_item (JStr ''v'') (now fresh_world) None None)
   \<and> fst (get sample_platform ''k'' no_options
             (snd (set_entry sample_platform ''k'' (JStr ''v'') no_options fresh_world)))
       = Some (JStr ''v'')
   \<and> fst (encrypt sample_platform (JStr ''v'') decrypt_only_key None w_decrypt_only)
       = Inl (DOMException ''InvalidAccessError'')
   \<and> fst (set_entry sample_platform ''k'' (JStr ''v'') no_options w_decrypt_only)
       = Inl (DOMException ''InvalidAccessError'')"
proof -
  let ?enc = "encrypted_item first_payload 1700000000000 None None"
  let ?plain = "plain_item (JStr ''v'') 1700000000000 None None"
  have a: "encrypt_or_default no_options" "isEncryptionAvailable sample_platform w_session"
    "encryptionKey w_session = Some sample_key"
    "fst (encrypt sample_platform (JStr ''v'') sample_key None w_session) = Inr first_payload"
    "platform_roundtrips sample_platform sample_key (JStr ''v'')
       (getRandomValues sample_platform (random_calls w_session) IV_LENGTH)"
    "reads_back sample_platform ?enc"
    by code_simp+
  have b: "now w_session = 1700000000000" "now fresh_world = 1700000000000"
    "expiry no_options w_session = None" "expiry plain_options w_session = None"
    "expiry no_options fresh_world = None"
    "opt_version no_options = None" "opt_version plain_options = None"
    "opt_ttl no_options = None" "opt_ttl plain_options = None"
    "storage_or_default no_options = Local" "storage_or_default plain_options = Local"
    "opt_encrypt plain_options = Some False"
    by code_simp+
  have c: "JSON_stringify sample_platform ?enc
             = ''{\"encrypted\":true,\"payload\":{\"ciphertext\":\"P5M/NA==\",\"iv\":\"BRAbJjE8R1JdaHN+\",\"algorithm\":\"AES-GCM-256\"},\"createdAt\":1700000000000}''"
    "JSON_stringify sample_platform ?plain
       = ''{\"encrypted\":false,\"value\":\"v\",\"createdAt\":1700000000000}''"
    "reads_back sample_platform ?plain"
    "\<not> isEncryptionAvailable sample_platform fresh_world"
    by code_simp+
  have enc: "fst (set_entry sample_platform ''k'' (JStr ''v'') no_options w_session) = Inr ()
     \<and> raw_entry Local ''k'' (snd (set_entry sample_platform ''k'' (JStr ''v'') no_options w_session))
         = Some (JSON_stringify sample_platform ?enc)
     \<and> fst (get sample_platform ''k'' no_options
               (snd (set_entry sample_platform ''k'' (JStr ''v'') no_options w_session)))
         = Some (JStr ''v'')"
    using set_entry_variant [of no_options sample_platform w_session "JStr ''v''" "''k''"] a b
    by simp
  have off: "raw_entry Local ''k''
               (snd (set_entry sample_platform ''k'' (JStr ''v'') plain_options w_session))
         = Some (JSON_stringify sample_platform ?plain)
     \<and> fst (get sample_platform ''k'' plain_options
               (snd (set_entry sample_platform ''k'' (JStr ''v'') plain_options w_session)))
         = Some (JStr ''v'')"
    using set_entry_variant [of plain_options sample_platform w_session "JStr ''v''" "''k''"] b c
    by simp
  have before: "fst (get sample_platform ''k'' no_options
               (snd (set_entry sample_platform ''k'' (JStr ''v'') no_options fresh_world)))
         = Some (JStr ''v'')"
    using set_entry_variant [of no_options sample_platform fresh_world "JStr ''v''" "''k''"] b c
    by simp
  have t: "isEncryptionAvailable sample_platform w_decrypt_only"
    "encryptionKey w_decrypt_only = Some decrypt_only_key"
    "fst (encrypt sample_platform (JStr ''v'') decrypt_only_key None w_decrypt_only)
       = Inl (DOMException ''InvalidAccessError'')"
    by code_simp+
  have thrown: "fst (set_entry sample_platform ''k'' (JStr ''v'') no_options w_decrypt_only)
                  = Inl (DOMException ''InvalidAccessError'')"
    using set_entry_variant [of no_options sample_platform w_decrypt_only "JStr ''v''" "''k''"]
      a(1) t
    by simp
  show ?thesis
    using enc off before thrown t(3) a(2) c by (simp add: b(2))
qed

text \<open>
  C6, as the code has it. For a stored, non-empty text that \<^verbatim>\<open>JSON.parse\<close> rejects or
  parses to \<^verbatim>\<open>null\<close>, and for an entry marked encrypted whose decryption throws while
  encryption is available, \<open>get\<close> returns absent and the entry is gone, so that
  \<open>has\<close> is false afterwards. \<open>get\<close> returns a value and a world: it never throws.
\<close>
theorem get_removes_unreadable:
  assumes "raw_entry (storage_or_default opts) k w = Some s" and "s \<noteq> []"
    and "(\<exists>e. JSON_parse P s = Inl e) \<or> JSON_parse P s = Inr JNull
         \<or> (\<exists>item ek e. JSON_parse P s = Inr item \<and> truthy (prop_of item ''encrypted'')
               \<and> isAvailable P \<and> encryptionKey w = Some ek
               \<and> (case as_payload (prop_of item ''payload'') of
                     Inl e' \<Rightarrow> Inl e' | Inr p \<Rightarrow> decrypt P p ek) = Inl e)"
  shows "fst (get P k opts w) = None
         \<and> raw_entry (storage_or_default opts) k (snd (get P k opts w)) = None
         \<and> fst (has P k opts (snd (get P k opts w))) = False"
  using get_absent_when_unreadable [OF assms] by (simp add: has_absent)

text \<open>
  C6 at an entry that is not JSON, and at an entry encrypted under the session key and
  read under another key.
\<close>
theorem get_removes_unreadable_witness:
  "raw_entry Local ''k'' w_garbage = Some ''not json''
   \<and> JSON_parse sample_platform ''not json'' = Inl SyntaxError
   \<and> fst (get sample_platform ''k'' no_options w_garbage) = None
   \<and> raw_entry Local ''k'' (snd (get sample_platform ''k'' no_options w_garbage)) = None
   \<and> raw_entry Local ''k'' w_wrong_key
       = Some (JSON_stringify sample_platform (encrypted_item first_payload 1700000000000 None None))
   \<and> decrypt sample_platform first_payload sample_key = Inr (JStr ''v'')
   \<and> decrypt sample_platform first_payload other_key = Inl (DOMException ''OperationError'')
   \<and> fst (get sample_platform ''k'' no_options w_wrong_key) = None
   \<and> raw_entry Local ''k'' (snd (get sample_platform ''k'' no_options w_wrong_key)) = None
   \<and> \<not> fst (has sample_platform ''k'' no_options
               (snd (get sample_platform ''k'' no_options w_wrong_key)))"
proof -
  let ?s = "JSON_stringify sample_platform (encrypted_item first_payload 1700000000000 None None)"
  have a: "raw_entry (storage_or_default no_options) ''k'' w_garbage = Some ''not json''"
    by code_simp
  have b: "JSON_parse sample_platform ''not json'' = Inl SyntaxError" by code_simp
  have c: "storage_or_default no_options = Local" by code_simp
  have d: "raw_entry (storage_or_default no_options) ''k'' w_wrong_key = Some ?s" by code_simp
  have e: "?s \<noteq> []" by code_simp
  have f: "JSON_parse sample_platform ?s = Inr (encrypted_item first_payload 1700000000000 None None)"
    "isAvailable sample_platform" "encryptionKey w_wrong_key = Some other_key"
    "decrypt sample_platform first_payload other_key = Inl (DOMException ''OperationError'')"
    "decrypt sample_platform first_payload sample_key = Inr (JStr ''v'')"
    by code_simp+
  have g: "\<exists>item ek e. JSON_parse sample_platform ?s = Inr item
             \<and> truthy (prop_of item ''encrypted'')
             \<and> isAvailable sample_platform \<and> encryptionKey w_wrong_key = Some ek
             \<and> (case as_payload (prop_of item ''payload'') of
                   Inl e' \<Rightarrow> Inl e' | Inr p \<Rightarrow> decrypt sample_platform p ek) = Inl e"
    using f by simp
  have first: "fst (get sample_platform ''k'' no_options w_garbage) = None
     \<and> raw_entry Local ''k'' (snd (get sample_platform ''k'' no_options w_garbage)) = None"
    using get_removes_unreadable [OF a, of sample_platform] b c by auto
  have second: "fst (get sample_platform ''k'' no_options w_wrong_key) = None
     \<and> raw_entry Local ''k'' (snd (get sample_platform ''k'' no_options w_wrong_key)) = None
     \<and> \<not> fst (has sample_platform ''k'' no_options
                 (snd (get sample_platform ''k'' no_options w_wrong_key)))"
    using get_removes_unreadable [OF d e, of sample_platform] g c by simp
  show ?thesis
    using first second a b c d f by simp
qed

text \<open>
  C6 as stated fails: the code does not validate what it parsed. The entry
  \<^verbatim>\<open>{"value":42}\<close> has no \<^verbatim>\<open>encrypted\<close> tag, yet \<open>get\<close> returns 42 and the entry
  stays stored. An entry whose text is empty is answered absent before any parsing and
  stays stored as well.
\<close>
theorem get_returns_untagged_value:
  "JSON_parse sample_platform ''{\"value\":42}'' = Inr (JObj [(''value'', JNum 42)])
   \<and> fst (get sample_platform ''k'' no_options w_untagged) = Some (JNum 42)
   \<and> raw_entry Local ''k'' (snd (get sample_platform ''k'' no_options w_untagged))
       = Some ''{\"value\":42}''
   \<and> fst (has sample_platform ''k'' no_options
             (snd (get sample_platform ''k'' no_options w_untagged)))
   \<and> raw_entry Local ''k'' w_empty_text = Some []
   \<and> fst (get sample_platform ''k'' no_options w_empty_text) = None
   \<and> raw_entry Local ''k'' (snd (get sample_platform ''k'' no_options w_empty_text)) = Some []"
  by code_simp

text \<open>
  C7. A \<open>set\<close> with a positive ttl stores an item with \<open>expiresAt = createdAt + ttl\<close>.
  In any later world that still holds that text and whose clock is past \<open>expiresAt\<close>, a
  \<open>get\<close> on the same backend returns absent and removes the entry, and \<open>has\<close> is false
  afterwards.
\<close>
theorem ttl_expiry:
  assumes "opt_ttl opts = Some t" and "0 < t" and "0 \<le> now w"
    and "fst (build_item P v opts w) = Inr item" and "reads_back P item"
    and "storage_or_default opts2 = storage_or_default opts"
    and "raw_entry (storage_or_default opts) k w2
           = raw_entry (storage_or_default opts) k (snd (set_entry P k v opts w))"
    and "now w + t < now w2"
  shows "fst (set_entry P k v opts w) = Inr ()
         \<and> prop_of item ''createdAt'' = Some (JNum (now w))
         \<and> prop_of item ''expiresAt'' = Some (JNum (now w + t))
         \<and> fst (get P k opts2 w2) = None
         \<and> raw_entry (storage_or_default opts) k (snd (get P k opts2 w2)) = None
         \<and> fst (has P k opts2 (snd (get P k opts2 w2))) = False"
proof -
  let ?st = "storage_or_default opts"
  let ?w1 = "snd (getStorage ?st w2)"
  have ex: "expiry opts w = Some (now w + t)"
    using assms(1,2) by (simp add: expiry_def)
  have item: "item \<noteq> JNull" "prop_of item ''expiresAt'' = Some (JNum (now w + t))"
    using build_item_expires [OF assms(4)] ex by simp_all
  have created: "prop_of item ''createdAt'' = Some (JNum (now w))"
    using build_item_cases [OF assms(4)] by auto
  have raw: "raw_entry ?st k w2 = Some (JSON_stringify P item)"
    using assms(7) raw_entry_set_entry [OF assms(4)] by simp
  have tx: "JSON_stringify P item \<noteq> []" "JSON_parse P (JSON_stringify P item) = Inr item"
    using assms(5) by (simp_all add: reads_back_def)
  have "get_try P k ?st (opt_version opts2) (JSON_stringify P item) ?w1
          = (Inr None, remove_entry k (storage_only ?st) ?w1)"
    using assms(2,3,8) by (intro get_try_expired [OF tx(2) item]) simp_all
  then have "fst (get P k opts2 w2) = None
             \<and> raw_entry (storage_or_default opts2) k (snd (get P k opts2 w2)) = None"
    using get_removed [of opts2 k w2 "JSON_stringify P item" P] raw tx(1) assms(6) by simp
  then show ?thesis
    using created item(2) assms(4,6) by (simp add: has_absent fst_set_entry)
qed

text \<open>C7 with a ttl of 1 ms, read 10 ms later.\<close>
theorem ttl_expiry_witness:
  "fst (set_entry sample_platform ''k'' (JStr ''v'') ttl_options fresh_world) = Inr ()
   \<and> reads_back sample_platform (plain_item (JStr ''v'') (now fresh_world) (Some (now fresh_world + 1)) None)
   \<and> fst (get sample_platform ''k'' no_options (w_stored_ttl\<lparr>now := now fresh_world + 10\<rparr>)) = None
   \<and> raw_entry Local ''k''
        (snd (get sample_platform ''k'' no_options (w_stored_ttl\<lparr>now := now fresh_world + 10\<rparr>)))
       = None"
proof -
  let ?item = "plain_item (JStr ''v'') (now fresh_world) (Some (now fresh_world + 1)) None"
  have a: "opt_ttl ttl_options = Some 1" "0 \<le> now fresh_world" by code_simp+
  have b: "fst (build_item sample_platform (JStr ''v'') ttl_options fresh_world) = Inr ?item"
    by code_simp
  have c: "reads_back sample_platform ?item" by code_simp
  have d: "storage_or_default no_options = storage_or_default ttl_options"
    "storage_or_default ttl_options = Local" by code_simp+
  have e: "raw_entry (storage_or_default ttl_options) ''k'' (w_stored_ttl\<lparr>now := now fresh_world + 10\<rparr>)
             = raw_entry (storage_or_default ttl_options) ''k''
                 (snd (set_entry sample_platform ''k'' (JStr ''v'') ttl_options fresh_world))"
    by (simp add: raw_entry_def w_stored_ttl_def)
  have f: "now fresh_world + 1 < now (w_stored_ttl\<lparr>now := now fresh_world + 10\<rparr>)" by simp
  show ?thesis
    using ttl_expiry [OF a(1) _ a(2) b c d(1) e f] c d(2) by simp
qed

text \<open>
  C8, as the code has it. \<open>initialize\<close> first returns normally, marking the service
  initialised, when Web Crypto is unavailable; only past that guard does the password
  mode without a password (absent or empty) throw
  \<^verbatim>\<open>Error('Password is required for password-based key derivation')\<close>, and then
  the world (key, salt, flag and storages) is exactly as it was.
\<close>
theorem initialize_password_required:
  assumes "isAvailable P" and "cfg_keyMode cfg = PasswordKey"
    and "cfg_password cfg = None \<or> cfg_password cfg = Some []"
  shows "initialize P cfg w
           = (Inl (Error ''Password is required for password-based key derivation''), w)"
  using assms by (auto simp: initialize_def)

text \<open>C8 at the sample platform and a fresh service.\<close>
theorem initialize_password_required_witness:
  "isAvailable sample_platform
   \<and> initialize sample_platform
        \<lparr>cfg_keyMode = PasswordKey, cfg_password = None, cfg_key = None\<rparr> fresh_world
      = (Inl (Error ''Password is required for password-based key derivation''), fresh_world)"
proof -
  have a: "isAvailable sample_platform" by code_simp
  show ?thesis
    using initialize_password_required
            [of sample_platform "\<lparr>cfg_keyMode = PasswordKey, cfg_password = None, cfg_key = None\<rparr>"
               fresh_world] a
    by simp
qed

text \<open>
  C8 as stated fails without Web Crypto: the same call returns normally and sets
  \<open>initialized\<close>.
\<close>
theorem initialize_without_crypto_counterexample:
  "fst (initialize (sample_platform\<lparr>subtle_present := False\<rparr>)
          \<lparr>cfg_keyMode = PasswordKey, cfg_password = None, cfg_key = None\<rparr> fresh_world) = Inr ()
   \<and> initialized (snd (initialize (sample_platform\<lparr>subtle_present := False\<rparr>)
          \<lparr>cfg_keyMode = PasswordKey, cfg_password = None, cfg_key = None\<rparr> fresh_world))
   \<and> \<not> initialized fresh_world"
  by (simp add: initialize_def isAvailable_def fresh_world_def)

text \<open>
  C9 at a service without \<^verbatim>\<open>localStorage\<close>, on the sample platform. \<open>set\<close> for
  \<^verbatim>\<open>'local'\<close> then writes to the memory map behind the wrapper \<open>getStorage\<close> returns,
  and \<open>get\<close> reads the value back. \<open>rotateKey\<close> for \<^verbatim>\<open>'local'\<close> asks \<open>keys\<close>, which
  reads \<^verbatim>\<open>length\<close> and \<^verbatim>\<open>key(i)\<close> of that wrapper and so lists nothing: no entry is
  re-encrypted, the key is replaced, and the entry can no longer be decrypted, so that
  \<open>get\<close> returns absent. The same entry is listed by \<open>keys\<close> for \<^verbatim>\<open>'memory'\<close>, and with
  a \<^verbatim>\<open>localStorage\<close> the same calls return the value after the rotation.
\<close>
theorem rotateKey_fallback_entries:
  "ref_for Local w_no_local = MemoryWrapper
   \<and> fst (initialize sample_platform session_config w_no_local) = Inr ()
   \<and> memoryStorage w_fallback_stored
       = [(''fly_secure_a'',
           ''{\"encrypted\":true,\"payload\":{\"ciphertext\":\"P5M/NA==\",\"iv\":\"BRAbJjE8R1JdaHN+\",\"algorithm\":\"AES-GCM-256\"},\"createdAt\":1700000000000}'')]
   \<and> fst (get sample_platform ''a'' no_options w_fallback_stored) = Some (JStr ''v'')
   \<and> fst (keys (storage_only Local) w_fallback_stored) = []
   \<and> fst (keys (storage_only Memory) w_fallback_stored) = [''a'']
   \<and> fst (rotateKey sample_platform session_config Local w_fallback_stored) = Inr ()
   \<and> encryptionKey (snd (rotateKey sample_platform session_config Local w_fallback_stored))
       = Some other_key
   \<and> memoryStorage (snd (rotateKey sample_platform session_config Local w_fallback_stored))
       = memoryStorage w_fallback_stored
   \<and> fst (get sample_platform ''a'' no_options
             (snd (rotateKey sample_platform session_config Local w_fallback_stored)))
       = None
   \<and> fst (keys (storage_only Local) w_local_stored) = [''a'']
   \<and> fst (get sample_platform ''a'' no_options
             (snd (rotateKey sample_platform session_config Local w_local_stored)))
       = Some (JStr ''v'')"
  by code_simp




end
